theory Spec2Isabelle
  imports
    Main
    "HOL-Library.Char_ord"
    "HOL-Library.List_Lexorder"
    "HOL-Library.Product_Lexorder"
    "HOL-Library.Multiset"
begin

section \<open>Values shared by the views\<close>

text \<open>
  The exceptions the views raise (or let through from the framework's lookups) are
  values of \<open>error\<close>; a view returns \<open>error + (response \<times> world)\<close>.
\<close>

datatype error =
    Http404
  | PermissionDenied
  | SuspiciousOperation
  | MultipleObjectsReturned
  | ValueError
  | KeyError
  | IndexError

text \<open>Python values that travel through URL keyword arguments, message parameters
  and query dictionaries: a string, an integer, or a list.\<close>

datatype pyval = PyStr string | PyInt int | PyList "pyval list"

type_synonym querydict = "(string \<times> string list) list"

record user =
  u_id :: int
  u_email :: string
  is_superuser :: bool
  is_authenticated :: bool

record contest =
  c_id :: string

text \<open>
  The request: \<open>req_language\<close> is what \<open>translation.get_language()\<close> answers while
  the request is served; \<open>req_contest\<close> is \<open>request.contest\<close>, set by the contest
  middleware before a view runs.
\<close>

record request =
  req_method :: string
  req_path :: string
  req_user :: user
  req_contest :: contest
  req_GET :: querydict
  req_POST :: querydict
  req_FILES :: "(string \<times> string) list"
  req_language :: string

text \<open>A URL is kept symbolic: the name handed to \<open>reverse\<close> with its keyword
  arguments, or the login page with the path to come back to.\<close>

datatype url = Reverse string "(string \<times> pyval) list" | Login string

subsection \<open>Persisted records\<close>

record submission =
  sub_id :: int
  sub_date :: int
  sub_kind :: string

record problem_instance =
  pi_id :: int
  pi_round_contest_id :: string
  pi_short_name :: string
  pi_problem_id :: int

record problem_statement =
  ps_problem_id :: int
  ps_language :: "string option"
  ps_extension :: string
  ps_content :: string

record problem_attachment =
  pa_id :: int
  pa_problem_id :: int
  pa_content :: string

record submission_report =
  sr_id :: int
  sr_submission_id :: int
  sr_status :: string

record teacher =
  t_user_id :: int
  t_is_active :: bool

record pupil =
  p_contest_id :: string
  p_user_id :: int

record contest_teacher =
  ct_contest_id :: string
  ct_teacher_user_id :: int

record registration_config =
  rc_contest_id :: string
  rc_is_active :: bool
  rc_key :: string

subsection \<open>Forms, template contexts, responses\<close>

datatype form_value = FProblemInstance problem_instance | FValue pyval

type_synonym cleaned_data = "(string \<times> form_value) list"

text \<open>\<open>SubmissionForm(request)\<close> is the unbound form, \<open>SubmissionForm(request,
  request.POST, request.FILES)\<close> the bound one.\<close>

datatype form = SubmissionForm request "(querydict \<times> (string \<times> string) list) option"

datatype ctxval =
    CBool bool
  | CStr string
  | CStrs "string list"
  | CForm form
  | CProblemInstance problem_instance
  | CSubmission submission
  | CReports "submission_report list"
  | CTeacher teacher

type_synonym template_context = "(string \<times> ctxval) list"

datatype response =
    TemplateResponse string template_context
  | HttpResponseRedirect url
  | HttpResponseNotAllowed "string list"
  | StreamFile string

subsection \<open>Effects\<close>

text \<open>
  What a view does besides answering is appended to the event log: a message of
  \<open>django.contrib.messages\<close> (level, message id, parameters of the \<open>%\<close> formatting), a
  call of one of the controller's effectful methods, an e-mail handed to
  \<open>User.email_user\<close> (user id, subject, body).
\<close>

datatype level = INFO | SUCCESS | ERROR

datatype event =
    Message level string "(string \<times> pyval) list"
  | Judge submission "(string \<times> pyval) list"
  | ChangeSubmissionKind submission string
  | CreateSubmission request form_value cleaned_data
  | EmailUser int string string

record world =
  w_users :: "user list"
  w_teachers :: "teacher list"
  w_pupils :: "pupil list"
  w_contest_teachers :: "contest_teacher list"
  w_registration_configs :: "registration_config list"
  w_problem_instances :: "problem_instance list"
  w_problem_statements :: "problem_statement list"
  w_problem_attachments :: "problem_attachment list"
  w_submission_reports :: "submission_report list"
  w_events :: "event list"

type_synonym result = "error + response \<times> world"

type_synonym view = "request \<Rightarrow> world \<Rightarrow> result"

section \<open>The framework's operations the views call\<close>

text \<open>\<open>redirect(name, **kwargs)\<close> answers a redirect to the reversed URL.\<close>

definition redirect :: "string \<Rightarrow> (string \<times> pyval) list \<Rightarrow> response" where
  "redirect name kwargs = HttpResponseRedirect (Reverse name kwargs)"

text \<open>
  \<open>get_object_or_404(Model, **filters)\<close>, applied to the rows that match the filters:
  no row is the not-found signal, one row is the object, several rows let the
  manager's \<open>MultipleObjectsReturned\<close> through.
\<close>

fun get_object_or_404 :: "'a list \<Rightarrow> error + 'a" where
  "get_object_or_404 [] = Inl Http404"
| "get_object_or_404 [x] = Inr x"
| "get_object_or_404 (x # y # ys) = Inl MultipleObjectsReturned"

text \<open>\<open>messages.info\<close>, \<open>messages.success\<close>, \<open>messages.error\<close>.\<close>

definition add_event :: "event \<Rightarrow> world \<Rightarrow> world" where
  "add_event e w = w\<lparr>w_events := w_events w @ [e]\<rparr>"

definition messages_info :: "string \<Rightarrow> world \<Rightarrow> world" where
  "messages_info text w = add_event (Message INFO text []) w"

definition messages_success :: "string \<Rightarrow> world \<Rightarrow> world" where
  "messages_success text w = add_event (Message SUCCESS text []) w"

definition messages_error :: "string \<Rightarrow> (string \<times> pyval) list \<Rightarrow> world \<Rightarrow> world" where
  "messages_error text params w = add_event (Message ERROR text params) w"

text \<open>
  A \<open>QueryDict\<close> maps a key to the list of its values. \<open>q[key]\<close> is the last value
  (the empty list when the list of values is empty) and raises \<open>KeyError\<close> for a
  missing key; \<open>q.dict()\<close> does the same for every key.
\<close>

definition qd_value :: "string list \<Rightarrow> pyval" where
  "qd_value vs = (if vs = [] then PyList [] else PyStr (last vs))"

definition qd_contains :: "querydict \<Rightarrow> string \<Rightarrow> bool" where
  "qd_contains q k = (map_of q k \<noteq> None)"

definition qd_getitem :: "querydict \<Rightarrow> string \<Rightarrow> error + pyval" where
  "qd_getitem q k = (case map_of q k of None \<Rightarrow> Inl KeyError | Some vs \<Rightarrow> Inr (qd_value vs))"

definition qd_dict :: "querydict \<Rightarrow> (string \<times> pyval) list" where
  "qd_dict q = map (\<lambda>(k, vs). (k, qd_value vs)) q"

text \<open>\<open>request.REQUEST\<close> looks a key up in \<open>POST\<close> first, then in \<open>GET\<close>.\<close>

definition REQUEST_contains :: "request \<Rightarrow> string \<Rightarrow> bool" where
  "REQUEST_contains request k = (qd_contains (req_POST request) k \<or> qd_contains (req_GET request) k)"

definition REQUEST_getitem :: "request \<Rightarrow> string \<Rightarrow> error + pyval" where
  "REQUEST_getitem request k =
     (if qd_contains (req_POST request) k then qd_getitem (req_POST request) k
      else qd_getitem (req_GET request) k)"

text \<open>
  The decorators of \<open>django\<close>: \<open>require_POST\<close> answers 405 to any other method;
  \<open>user_passes_test\<close> sends a user who fails the test to the login page;
  \<open>login_required\<close> is \<open>user_passes_test\<close> with the test \<open>is_authenticated\<close>.
\<close>

definition require_POST :: "view \<Rightarrow> view" where
  "require_POST v request w =
     (if req_method request \<noteq> ''POST'' then Inr (HttpResponseNotAllowed [''POST''], w)
      else v request w)"

definition user_passes_test :: "(user \<Rightarrow> bool) \<Rightarrow> view \<Rightarrow> view" where
  "user_passes_test test v request w =
     (if test (req_user request) then v request w
      else Inr (HttpResponseRedirect (Login (req_path request)), w))"

definition login_required :: "view \<Rightarrow> view" where
  "login_required v = user_passes_test is_authenticated v"

text \<open>
  What the views take from the framework without this repository saying how it is
  computed: the permission backends behind \<open>user.has_perm\<close>, template rendering and
  \<open>request.build_absolute_uri\<close>.
\<close>

record framework =
  has_perm :: "user \<Rightarrow> string \<Rightarrow> bool"
  render_to_string :: "string \<Rightarrow> template_context \<Rightarrow> string"
  build_absolute_uri :: "request \<Rightarrow> url \<Rightarrow> string"

section \<open>Parts of the repository outside the three modules\<close>

text \<open>
  The contest controller (\<open>request.contest.controller\<close>): its queries are functions;
  its effectful methods \<open>judge\<close>, \<open>change_submission_kind\<close> and \<open>create_submission\<close>
  are recorded as events.
\<close>

record controller =
  can_see_problem :: "request \<Rightarrow> problem_instance \<Rightarrow> bool"
  valid_kinds_for_submission :: "submission \<Rightarrow> string list"
  filter_visible_reports :: "request \<Rightarrow> submission \<Rightarrow> submission_report list \<Rightarrow> submission_report list"
  render_submission :: "request \<Rightarrow> submission \<Rightarrow> string"
  render_submission_footer :: "request \<Rightarrow> submission \<Rightarrow> string"
  render_report :: "request \<Rightarrow> submission_report \<Rightarrow> string"

definition judge :: "submission \<Rightarrow> (string \<times> pyval) list \<Rightarrow> world \<Rightarrow> world" where
  "judge s kwargs w = add_event (Judge s kwargs) w"

definition change_submission_kind :: "submission \<Rightarrow> string \<Rightarrow> world \<Rightarrow> world" where
  "change_submission_kind s kind w = add_event (ChangeSubmissionKind s kind) w"

definition create_submission :: "request \<Rightarrow> form_value \<Rightarrow> cleaned_data \<Rightarrow> world \<Rightarrow> world" where
  "create_submission request pinst data w = add_event (CreateSubmission request pinst data) w"

text \<open>\<open>oioioi.contests.utils\<close> and \<open>oioioi.contests.forms\<close>: predicates on the
  request, the visible problem instances, the submission lookup, form validation.\<close>

record utils =
  contest_exists :: "request \<Rightarrow> bool"
  can_enter_contest :: "request \<Rightarrow> bool"
  is_contest_admin :: "request \<Rightarrow> bool"
  not_anonymous :: "request \<Rightarrow> bool"
  has_any_submittable_problem :: "request \<Rightarrow> bool"
  visible_problem_instances :: "request \<Rightarrow> problem_instance list"
  get_submission_or_404 :: "request \<Rightarrow> string \<Rightarrow> string \<Rightarrow> error + submission"
  form_is_valid :: "form \<Rightarrow> bool"
  form_cleaned_data :: "form \<Rightarrow> cleaned_data"
  on_deny :: "string option \<Rightarrow> request \<Rightarrow> error + response"

text \<open>
  Modelled from the spec: \<open>enforce_condition\<close> of \<open>oioioi.base.permissions\<close> is not
  among the sources. The view runs only for a request that satisfies the condition;
  what is answered otherwise (the forbidden signal, a login redirect, the template
  given to the decorator) is \<open>on_deny\<close>, which touches no record. \<open>c1 & c2\<close> on
  conditions is their conjunction.
\<close>

definition cond_and :: "(request \<Rightarrow> bool) \<Rightarrow> (request \<Rightarrow> bool) \<Rightarrow> request \<Rightarrow> bool" where
  "cond_and c1 c2 request = (c1 request \<and> c2 request)"

definition enforce_condition :: "utils \<Rightarrow> (request \<Rightarrow> bool) \<Rightarrow> string option \<Rightarrow> view \<Rightarrow> view" where
  "enforce_condition u cond template v request w =
     (if cond request then v request w
      else (case on_deny u template request of Inl e \<Rightarrow> Inl e | Inr r \<Rightarrow> Inr (r, w)))"

section \<open>oioioi/contests/views.py\<close>

subsection \<open>problem\_statement\_view\<close>

text \<open>\<open>xs.index(x)\<close>: the first position of \<open>x\<close>, \<open>None\<close> where Python raises
  \<open>ValueError\<close>.\<close>

fun index :: "'a list \<Rightarrow> 'a \<Rightarrow> nat option" where
  "index [] x = None"
| "index (y # ys) x = (if y = x then Some 0 else map_option Suc (index ys x))"

definition lang_prefs :: "request \<Rightarrow> (string \<times> string) list \<Rightarrow> string option list" where
  "lang_prefs request LANGUAGES =
     [Some (req_language request)] @ [Some '''', None] @ map (\<lambda>l. Some (fst l)) LANGUAGES"

definition ext_prefs :: "string list" where
  "ext_prefs = [''.pdf'', ''.ps'', ''.html'', ''.txt'']"

text \<open>The key of the inner function \<open>sort_key\<close>; \<open>maxint\<close> is \<open>sys.maxint\<close>. Python
  compares the tuples lexicographically, as the product order does here.\<close>

definition statement_sort_key ::
  "nat \<Rightarrow> request \<Rightarrow> (string \<times> string) list \<Rightarrow> problem_statement \<Rightarrow> nat \<times> (nat \<times> string)" where
  "statement_sort_key maxint request LANGUAGES statement =
     (let lang_pref = (case index (lang_prefs request LANGUAGES) (ps_language statement) of
                         Some i \<Rightarrow> i | None \<Rightarrow> maxint);
          ext_pref = (case index ext_prefs (ps_extension statement) of
                         Some i \<Rightarrow> (i, '''') | None \<Rightarrow> (maxint, ps_extension statement))
      in (lang_pref, ext_pref))"

definition stream_file :: "string \<Rightarrow> response" where
  "stream_file content = StreamFile content"

text \<open>\<open>sorted(statements, key=sort_key)\<close> is a stable sort, as \<^const>\<open>sort_key\<close> is.\<close>

definition problem_statement_view_body ::
  "nat \<Rightarrow> (string \<times> string) list \<Rightarrow> controller \<Rightarrow> string \<Rightarrow> string \<Rightarrow> view" where
  "problem_statement_view_body maxint LANGUAGES ctrl contest_id problem_instance request w =
     (case get_object_or_404
             [p \<leftarrow> w_problem_instances w.
                pi_round_contest_id p = c_id (req_contest request) \<and>
                pi_short_name p = problem_instance] of
        Inl e \<Rightarrow> Inl e
      | Inr p \<Rightarrow>
          if \<not> can_see_problem ctrl request p then Inl PermissionDenied
          else
            let statements = [s \<leftarrow> w_problem_statements w. ps_problem_id s = pi_problem_id p] in
            if statements = [] then
              Inr (TemplateResponse ''contests/no_problem_statement.html''
                     [(''problem_instance'', CProblemInstance p)], w)
            else
              (case sort_key (statement_sort_key maxint request LANGUAGES) statements of
                 [] \<Rightarrow> Inl IndexError
               | statement # _ \<Rightarrow> Inr (stream_file (ps_content statement), w)))"

definition problem_statement_view ::
  "utils \<Rightarrow> nat \<Rightarrow> (string \<times> string) list \<Rightarrow> controller \<Rightarrow> string \<Rightarrow> string \<Rightarrow> view" where
  "problem_statement_view u maxint LANGUAGES ctrl contest_id problem_instance =
     enforce_condition u (cond_and (contest_exists u) (can_enter_contest u)) None
       (problem_statement_view_body maxint LANGUAGES ctrl contest_id problem_instance)"

subsection \<open>submit\_view\<close>

definition submit_view_body :: "utils \<Rightarrow> string \<Rightarrow> view" where
  "submit_view_body u contest_id request w =
     (if req_method request = ''POST'' then
        let form = SubmissionForm request (Some (req_POST request, req_FILES request)) in
        if form_is_valid u form then
          (case map_of (form_cleaned_data u form) ''problem_instance'' of
             None \<Rightarrow> Inl KeyError
           | Some pinst \<Rightarrow>
               Inr (redirect ''my_submissions'' [(''contest_id'', PyStr contest_id)],
                    create_submission request pinst (form_cleaned_data u form) w))
        else Inr (TemplateResponse ''contests/submit.html'' [(''form'', CForm form)], w)
      else
        let form = SubmissionForm request None in
        Inr (TemplateResponse ''contests/submit.html'' [(''form'', CForm form)], w))"

definition submit_view :: "utils \<Rightarrow> string \<Rightarrow> view" where
  "submit_view u contest_id =
     enforce_condition u (cond_and (contest_exists u) (can_enter_contest u)) None
       (enforce_condition u (has_any_submittable_problem u)
          (Some ''contests/nothing_to_submit.html'')
          (submit_view_body u contest_id))"

subsection \<open>submission\_view\<close>

text \<open>Python's \<open>x and y or z\<close> for a boolean \<open>x\<close> and lists \<open>y\<close>, \<open>z\<close>: \<open>y\<close> when \<open>x\<close>
  holds and \<open>y\<close> is not empty, \<open>z\<close> otherwise.\<close>

definition and_or :: "bool \<Rightarrow> 'a list \<Rightarrow> 'a list \<Rightarrow> 'a list" where
  "and_or x y z = (if x \<and> y \<noteq> [] then y else z)"

definition submission_view_body :: "utils \<Rightarrow> controller \<Rightarrow> string \<Rightarrow> string \<Rightarrow> view" where
  "submission_view_body u ctrl contest_id submission_id request w =
     (case get_submission_or_404 u request contest_id submission_id of
        Inl e \<Rightarrow> Inl e
      | Inr submission \<Rightarrow>
          let header = render_submission ctrl request submission;
              footer = render_submission_footer ctrl request submission;
              queryset = [r \<leftarrow> w_submission_reports w. sr_submission_id r = sub_id submission];
              reports = map (render_report ctrl request)
                          (filter_visible_reports ctrl request submission
                             [r \<leftarrow> queryset. sr_status r = ''ACTIVE'']);
              all_reports = and_or (is_contest_admin u request)
                              (filter_visible_reports ctrl request submission queryset) []
          in Inr (TemplateResponse ''contests/submission.html''
                    [(''submission'', CSubmission submission), (''header'', CStr header),
                     (''footer'', CStr footer), (''reports'', CStrs reports),
                     (''all_reports'', CReports all_reports)], w))"

definition submission_view :: "utils \<Rightarrow> controller \<Rightarrow> string \<Rightarrow> string \<Rightarrow> view" where
  "submission_view u ctrl contest_id submission_id =
     enforce_condition u (cond_and (contest_exists u) (can_enter_contest u)) None
       (submission_view_body u ctrl contest_id submission_id)"

subsection \<open>rejudge\_submission\_view and change\_submission\_kind\_view\<close>

definition rejudge_submission_view_body :: "utils \<Rightarrow> string \<Rightarrow> string \<Rightarrow> view" where
  "rejudge_submission_view_body u contest_id submission_id request w =
     (case get_submission_or_404 u request contest_id submission_id of
        Inl e \<Rightarrow> Inl e
      | Inr submission \<Rightarrow>
          Inr (redirect ''submission''
                 [(''contest_id'', PyStr contest_id), (''submission_id'', PyStr submission_id)],
               messages_info ''Rejudge request received.''
                 (judge submission (qd_dict (req_GET request)) w)))"

definition rejudge_submission_view :: "utils \<Rightarrow> string \<Rightarrow> string \<Rightarrow> view" where
  "rejudge_submission_view u contest_id submission_id =
     enforce_condition u (cond_and (contest_exists u) (is_contest_admin u)) None
       (require_POST (rejudge_submission_view_body u contest_id submission_id))"

definition change_submission_kind_view_body ::
  "utils \<Rightarrow> controller \<Rightarrow> string \<Rightarrow> string \<Rightarrow> string \<Rightarrow> view" where
  "change_submission_kind_view_body u ctrl contest_id submission_id kind request w =
     (case get_submission_or_404 u request contest_id submission_id of
        Inl e \<Rightarrow> Inl e
      | Inr submission \<Rightarrow>
          Inr (redirect ''submission''
                 [(''contest_id'', PyStr contest_id), (''submission_id'', PyStr submission_id)],
               if kind \<in> set (valid_kinds_for_submission ctrl submission) then
                 messages_success ''Submission kind has been changed.''
                   (change_submission_kind submission kind w)
               else
                 messages_error ''%(kind)s is not valid kind for submission %(submission_id)d.''
                   [(''kind'', PyStr kind), (''submission_id'', PyInt (sub_id submission))] w))"

definition change_submission_kind_view ::
  "utils \<Rightarrow> controller \<Rightarrow> string \<Rightarrow> string \<Rightarrow> string \<Rightarrow> view" where
  "change_submission_kind_view u ctrl contest_id submission_id kind =
     enforce_condition u (cond_and (contest_exists u) (is_contest_admin u)) None
       (require_POST (change_submission_kind_view_body u ctrl contest_id submission_id kind))"

subsection \<open>problem\_attachment\_view\<close>

definition problem_attachment_view_body :: "utils \<Rightarrow> string \<Rightarrow> int \<Rightarrow> view" where
  "problem_attachment_view_body u contest_id attachment_id request w =
     (case get_object_or_404 [a \<leftarrow> w_problem_attachments w. pa_id a = attachment_id] of
        Inl e \<Rightarrow> Inl e
      | Inr attachment \<Rightarrow>
          let problem_instances = visible_problem_instances u request;
              problem_ids = map pi_problem_id problem_instances
          in if pa_problem_id attachment \<notin> set problem_ids then Inl PermissionDenied
             else Inr (stream_file (pa_content attachment), w))"

definition problem_attachment_view :: "utils \<Rightarrow> string \<Rightarrow> int \<Rightarrow> view" where
  "problem_attachment_view u contest_id attachment_id =
     enforce_condition u (cond_and (contest_exists u) (can_enter_contest u)) None
       (problem_attachment_view_body u contest_id attachment_id)"

section \<open>oioioi/teachers/views.py\<close>

subsection \<open>Text operations of send\_acceptance\_email\<close>

text \<open>
  \<open>s.strip()\<close>, \<open>s.splitlines()\<close> and \<open>' '.join(xs)\<close> on the characters a \<open>char\<close>
  holds: white space is U+0009 to U+000D, U+001C to U+0020, U+0085 and U+00A0; a line
  ends at U+000A to U+000D, U+001C to U+001E and U+0085, and a carriage return followed
  by a line feed ends one line.
\<close>

definition is_space :: "char \<Rightarrow> bool" where
  "is_space c = ((of_char c :: nat) \<in> set [9, 10, 11, 12, 13, 28, 29, 30, 31, 32, 133, 160])"

definition is_linebreak :: "char \<Rightarrow> bool" where
  "is_linebreak c = ((of_char c :: nat) \<in> set [10, 11, 12, 13, 28, 29, 30, 133])"

definition strip :: "string \<Rightarrow> string" where
  "strip s = rev (dropWhile is_space (rev (dropWhile is_space s)))"

fun splitlines_from :: "string \<Rightarrow> string \<Rightarrow> string list" where
  "splitlines_from cur [] = (if cur = [] then [] else [cur])"
| "splitlines_from cur [c] = (if is_linebreak c then [cur] else [cur @ [c]])"
| "splitlines_from cur (c # d # ds) =
     (if (of_char c :: nat) = 13 \<and> (of_char d :: nat) = 10 then cur # splitlines_from [] ds
      else if is_linebreak c then cur # splitlines_from [] (d # ds)
      else splitlines_from (cur @ [c]) (d # ds))"

definition splitlines :: "string \<Rightarrow> string list" where
  "splitlines s = splitlines_from [] s"

fun join :: "string \<Rightarrow> string list \<Rightarrow> string" where
  "join sep [] = []"
| "join sep [x] = x"
| "join sep (x # y # ys) = x @ sep @ join sep (y # ys)"

subsection \<open>Model managers\<close>

text \<open>
  \<open>Manager.get_or_create(**kwargs)\<close> on the rows matching \<open>kwargs\<close>: one row is
  returned as it is, no row makes a new one, several rows raise. \<open>obj.save()\<close>
  rewrites the row of the object. A \<open>Teacher\<close> is identified by its user, a
  \<open>RegistrationConfig\<close> by its contest: each is saved only after a lookup by that
  field has returned a single row.
\<close>

definition Teacher_get_or_create :: "bool \<Rightarrow> user \<Rightarrow> world \<Rightarrow> error + (teacher \<times> bool) \<times> world" where
  "Teacher_get_or_create default_is_active usr w =
     (case [t \<leftarrow> w_teachers w. t_user_id t = u_id usr] of
        [] \<Rightarrow> (let t = \<lparr>t_user_id = u_id usr, t_is_active = default_is_active\<rparr>
               in Inr ((t, True), w\<lparr>w_teachers := w_teachers w @ [t]\<rparr>))
      | [t] \<Rightarrow> Inr ((t, False), w)
      | _ \<Rightarrow> Inl MultipleObjectsReturned)"

definition Teacher_save :: "teacher \<Rightarrow> world \<Rightarrow> world" where
  "Teacher_save t w =
     w\<lparr>w_teachers := map (\<lambda>r. if t_user_id r = t_user_id t then t else r) (w_teachers w)\<rparr>"

definition Pupil_get_or_create :: "contest \<Rightarrow> user \<Rightarrow> world \<Rightarrow> error + (pupil \<times> bool) \<times> world" where
  "Pupil_get_or_create c usr w =
     (case [p \<leftarrow> w_pupils w. p_contest_id p = c_id c \<and> p_user_id p = u_id usr] of
        [] \<Rightarrow> (let p = \<lparr>p_contest_id = c_id c, p_user_id = u_id usr\<rparr>
               in Inr ((p, True), w\<lparr>w_pupils := w_pupils w @ [p]\<rparr>))
      | [p] \<Rightarrow> Inr ((p, False), w)
      | _ \<Rightarrow> Inl MultipleObjectsReturned)"

definition RegistrationConfig_save :: "registration_config \<Rightarrow> world \<Rightarrow> world" where
  "RegistrationConfig_save rc w =
     w\<lparr>w_registration_configs :=
         map (\<lambda>r. if rc_contest_id r = rc_contest_id rc then rc else r) (w_registration_configs w)\<rparr>"

subsection \<open>send\_acceptance\_email and accept\_teacher\_view\<close>

definition email_user :: "int \<Rightarrow> string \<Rightarrow> string \<Rightarrow> world \<Rightarrow> world" where
  "email_user uid subject body w = add_event (EmailUser uid subject body) w"

definition send_acceptance_email :: "framework \<Rightarrow> request \<Rightarrow> teacher \<Rightarrow> world \<Rightarrow> world" where
  "send_acceptance_email fw request teacher w =
     (let context = [(''teacher'', CTeacher teacher),
                     (''new_contest_link'',
                        CStr (build_absolute_uri fw request
                                (Reverse ''oioioiadmin:contests_contest_add'' [])))];
          subject = render_to_string fw ''teachers/acceptance_email_subject.txt'' context;
          subject = join '' '' (splitlines (strip subject));
          body = render_to_string fw ''teachers/acceptance_email.txt'' context
      in email_user (t_user_id teacher) subject body w)"

definition accept_teacher_view_body :: "framework \<Rightarrow> bool \<Rightarrow> int \<Rightarrow> view" where
  "accept_teacher_view_body fw default_is_active uid request w =
     (case get_object_or_404 [x \<leftarrow> w_users w. u_id x = uid] of
        Inl e \<Rightarrow> Inl e
      | Inr usr \<Rightarrow>
          (case Teacher_get_or_create default_is_active usr w of
             Inl e \<Rightarrow> Inl e
           | Inr ((teacher, created), w1) \<Rightarrow>
               Inr (redirect ''oioioiadmin:teachers_teacher_changelist'' [],
                    if t_is_active teacher then messages_info ''User already accepted.'' w1
                    else
                      let teacher = teacher\<lparr>t_is_active := True\<rparr> in
                      messages_success ''Successfully accepted and emailed the new teacher.''
                        (send_acceptance_email fw request teacher (Teacher_save teacher w1)))))"

definition accept_teacher_view :: "framework \<Rightarrow> bool \<Rightarrow> int \<Rightarrow> view" where
  "accept_teacher_view fw default_is_active uid =
     user_passes_test is_superuser (accept_teacher_view_body fw default_is_active uid)"

subsection \<open>activate\_pupil\_view\<close>

text \<open>
  \<open>ContestTeacher.get_or_create\<close> is called on the model class, not on its manager;
  the class is declared in \<open>oioioi.teachers.models\<close>, so what the call does is the
  parameter \<open>ct_get_or_create\<close>.
\<close>

definition activate_pupil_view_body ::
  "framework \<Rightarrow> (contest \<Rightarrow> teacher \<Rightarrow> world \<Rightarrow> error + world) \<Rightarrow> string \<Rightarrow> string \<Rightarrow> view" where
  "activate_pupil_view_body fw ct_get_or_create contest_id key request w =
     (case get_object_or_404
             [rc \<leftarrow> w_registration_configs w. rc_contest_id rc = c_id (req_contest request)] of
        Inl e \<Rightarrow> Inl e
      | Inr registration_config \<Rightarrow>
          let key_ok = (rc_key registration_config = key) in
          if key_ok \<and> rc_is_active registration_config then
            let is_teacher = has_perm fw (req_user request) ''teachers.teacher'' in
            (case (if \<not> is_teacher then Inr (Inr (PyStr ''pupil''))
                   else if REQUEST_contains request ''register_as''
                     then map_sum id Inr (REQUEST_getitem request ''register_as'')
                   else Inr (Inl (TemplateResponse ''teachers/activation_type.html''
                                    [(''key'', CStr key)]))) of
               Inl e \<Rightarrow> Inl e
             | Inr (Inl page) \<Rightarrow> Inr (page, w)
             | Inr (Inr register_as) \<Rightarrow>
                 (case (if register_as = PyStr ''pupil'' then
                          map_sum id snd (Pupil_get_or_create (req_contest request) (req_user request) w)
                        else if register_as = PyStr ''teacher'' then
                          (case get_object_or_404
                                  [t \<leftarrow> w_teachers w. t_user_id t = u_id (req_user request)] of
                             Inl e \<Rightarrow> Inl e
                           | Inr teacher_obj \<Rightarrow> ct_get_or_create (req_contest request) teacher_obj w)
                        else Inl SuspiciousOperation) of
                    Inl e \<Rightarrow> Inl e
                  | Inr w1 \<Rightarrow>
                      Inr (redirect ''default_contest_view'' [(''contest_id'', PyStr contest_id)],
                           messages_info ''Activation successful.'' w1)))
          else
            Inr (TemplateResponse ''teachers/activation_error.html''
                   [(''key_ok'', CBool key_ok),
                    (''registration_active'', CBool (rc_is_active registration_config))], w))"

definition activate_pupil_view ::
  "framework \<Rightarrow> (contest \<Rightarrow> teacher \<Rightarrow> world \<Rightarrow> error + world) \<Rightarrow> string \<Rightarrow> string \<Rightarrow> view" where
  "activate_pupil_view fw ct_get_or_create contest_id key =
     login_required (activate_pupil_view_body fw ct_get_or_create contest_id key)"

subsection \<open>set\_registration\_view\<close>

definition redirect_to_pupils :: "request \<Rightarrow> response" where
  "redirect_to_pupils request =
     redirect ''pupils_view'' [(''contest_id'', PyStr (c_id (req_contest request)))]"

definition set_registration_view_body :: "string \<Rightarrow> bool \<Rightarrow> view" where
  "set_registration_view_body contest_id val request w =
     (case get_object_or_404
             [rc \<leftarrow> w_registration_configs w. rc_contest_id rc = c_id (req_contest request)] of
        Inl e \<Rightarrow> Inl e
      | Inr registration_config \<Rightarrow>
          let registration_config = registration_config\<lparr>rc_is_active := val\<rparr> in
          Inr (redirect_to_pupils request, RegistrationConfig_save registration_config w))"

definition set_registration_view :: "utils \<Rightarrow> string \<Rightarrow> bool \<Rightarrow> view" where
  "set_registration_view u contest_id val =
     enforce_condition u (is_contest_admin u) None (set_registration_view_body contest_id val)"

section \<open>oioioi/programs/admin.py\<close>

text \<open>
  \<open>submission_diff_action\<close> of \<open>ProgramSubmissionAdminMixin\<close>. The action answers a
  response or \<open>None\<close>. \<open>queryset.order_by('date')\<close> is the parameter \<open>order_by_date\<close>:
  the database decides the order of rows of equal date. Unpacking a list that has
  not two elements raises \<open>ValueError\<close>.
\<close>

definition submission_diff_action ::
  "(submission list \<Rightarrow> submission list) \<Rightarrow> request \<Rightarrow> submission list \<Rightarrow> world \<Rightarrow>
     error + response option \<times> world" where
  "submission_diff_action order_by_date request queryset w =
     (if length queryset \<noteq> 2 then
        Inr (None, messages_error ''You shall select exactly two submissions to diff'' [] w)
      else
        (case map sub_id (order_by_date queryset) of
           [id_older, id_newer] \<Rightarrow>
             Inr (Some (redirect ''source_diff''
                          [(''contest_id'', PyStr (c_id (req_contest request))),
                           (''submission1_id'', PyInt id_older),
                           (''submission2_id'', PyInt id_newer)]), w)
         | _ \<Rightarrow> Inl ValueError))"

section \<open>The order of preference among statements, in words\<close>

text \<open>
  The preference as the specification words it: the current language first, then the
  statements of empty or missing language (one rank), then the site languages in their
  order, then every other language; among equals the extension decides, \<open>.pdf\<close>,
  \<open>.ps\<close>, \<open>.html\<close>, \<open>.txt\<close>, then the unknown extensions by their string.
\<close>

definition claimed_lang_rank :: "request \<Rightarrow> (string \<times> string) list \<Rightarrow> string option \<Rightarrow> nat" where
  "claimed_lang_rank request LANGUAGES lang =
     (case lang of
        None \<Rightarrow> 1
      | Some l \<Rightarrow>
          if l = req_language request then 0
          else if l = '''' then 1
          else (case index (map fst LANGUAGES) l of
                  Some i \<Rightarrow> 2 + i
                | None \<Rightarrow> 2 + length LANGUAGES))"

definition ext_rank :: "string \<Rightarrow> nat \<times> string" where
  "ext_rank e =
     (if e = ''.pdf'' then (0, '''')
      else if e = ''.ps'' then (1, '''')
      else if e = ''.html'' then (2, '''')
      else if e = ''.txt'' then (3, '''')
      else (4, e))"

definition claimed_preference ::
  "request \<Rightarrow> (string \<times> string) list \<Rightarrow> problem_statement \<Rightarrow> nat \<times> (nat \<times> string)" where
  "claimed_preference request LANGUAGES s =
     (claimed_lang_rank request LANGUAGES (ps_language s), ext_rank (ps_extension s))"

text \<open>
  The same with the empty language and the missing language as two ranks, the empty
  one first.
\<close>

definition lang_rank :: "request \<Rightarrow> (string \<times> string) list \<Rightarrow> string option \<Rightarrow> nat" where
  "lang_rank request LANGUAGES lang =
     (case lang of
        None \<Rightarrow> 2
      | Some l \<Rightarrow>
          if l = req_language request then 0
          else if l = '''' then 1
          else (case index (map fst LANGUAGES) l of
                  Some i \<Rightarrow> 3 + i
                | None \<Rightarrow> 3 + length LANGUAGES))"

definition preference ::
  "request \<Rightarrow> (string \<times> string) list \<Rightarrow> problem_statement \<Rightarrow> nat \<times> (nat \<times> string)" where
  "preference request LANGUAGES s =
     (lang_rank request LANGUAGES (ps_language s), ext_rank (ps_extension s))"

section \<open>Concrete inputs\<close>

definition a_user :: user where
  "a_user = \<lparr>u_id = 1, u_email = ''u@example.org'', is_superuser = False, is_authenticated = True\<rparr>"

definition a_request :: request where
  "a_request = \<lparr>req_method = ''POST'', req_path = ''/c/c1/'', req_user = a_user,
                 req_contest = \<lparr>c_id = ''c1''\<rparr>, req_GET = [], req_POST = [], req_FILES = [],
                 req_language = ''pl''\<rparr>"

definition empty_world :: world where
  "empty_world = \<lparr>w_users = [], w_teachers = [], w_pupils = [], w_contest_teachers = [],
                   w_registration_configs = [], w_problem_instances = [],
                   w_problem_statements = [], w_problem_attachments = [],
                   w_submission_reports = [], w_events = []\<rparr>"

definition sub_a :: submission where
  "sub_a = \<lparr>sub_id = 7, sub_date = 200, sub_kind = ''NORMAL''\<rparr>"

definition sub_b :: submission where
  "sub_b = \<lparr>sub_id = 9, sub_date = 100, sub_kind = ''NORMAL''\<rparr>"

definition an_admin :: user where
  "an_admin = \<lparr>u_id = 2, u_email = ''admin@example.org'', is_superuser = True, is_authenticated = True\<rparr>"

definition admin_request :: request where
  "admin_request = a_request\<lparr>req_user := an_admin, req_GET := [(''kind'', [''FULL''])]\<rparr>"

definition pi_zad :: problem_instance where
  "pi_zad = \<lparr>pi_id = 1, pi_round_contest_id = ''c1'', pi_short_name = ''zad'', pi_problem_id = 10\<rparr>"

definition pi_hidden :: problem_instance where
  "pi_hidden = \<lparr>pi_id = 2, pi_round_contest_id = ''c1'', pi_short_name = ''hidden'', pi_problem_id = 20\<rparr>"

definition some_utils :: utils where
  "some_utils =
     \<lparr>contest_exists = (\<lambda>r. True),
      can_enter_contest = (\<lambda>r. True),
      is_contest_admin = (\<lambda>r. is_superuser (req_user r)),
      not_anonymous = (\<lambda>r. is_authenticated (req_user r)),
      has_any_submittable_problem = (\<lambda>r. True),
      visible_problem_instances = (\<lambda>r. [pi_zad]),
      get_submission_or_404 = (\<lambda>r c s. if s = ''7'' then Inr sub_a else Inl Http404),
      form_is_valid = (\<lambda>f. case f of SubmissionForm r None \<Rightarrow> False
                                   | SubmissionForm r (Some (post, files)) \<Rightarrow>
                                       qd_contains post ''problem_instance''),
      form_cleaned_data = (\<lambda>f. [(''problem_instance'', FProblemInstance pi_zad)]),
      on_deny = (\<lambda>t r. Inl PermissionDenied)\<rparr>"

definition some_controller :: controller where
  "some_controller =
     \<lparr>can_see_problem = (\<lambda>r p. pi_short_name p \<noteq> ''hidden''),
      valid_kinds_for_submission = (\<lambda>s. [''NORMAL'', ''IGNORED'']),
      filter_visible_reports = (\<lambda>r s q. q),
      render_submission = (\<lambda>r s. ''header''),
      render_submission_footer = (\<lambda>r s. ''footer''),
      render_report = (\<lambda>r rep. sr_status rep)\<rparr>"

definition some_framework :: framework where
  "some_framework =
     \<lparr>has_perm = (\<lambda>usr p. is_superuser usr),
      render_to_string = (\<lambda>t c. if t = ''teachers/acceptance_email_subject.txt''
                                  then '' Accepted\<newline> as teacher ''
                                  else ''Welcome''),
      build_absolute_uri = (\<lambda>r l. ''http://example.org/'')\<rparr>"

definition contest_world :: world where
  "contest_world = empty_world
     \<lparr>w_registration_configs :=
        [\<lparr>rc_contest_id = ''c0'', rc_is_active = True, rc_key = ''k0''\<rparr>,
         \<lparr>rc_contest_id = ''c1'', rc_is_active = True, rc_key = ''k1''\<rparr>],
      w_problem_instances := [pi_zad, pi_hidden],
      w_problem_statements :=
        [\<lparr>ps_problem_id = 10, ps_language = None, ps_extension = ''.pdf'', ps_content = ''a.pdf''\<rparr>,
         \<lparr>ps_problem_id = 10, ps_language = Some '''', ps_extension = ''.txt'', ps_content = ''b.txt''\<rparr>],
      w_problem_attachments :=
        [\<lparr>pa_id = 5, pa_problem_id = 20, pa_content = ''hidden.zip''\<rparr>],
      w_submission_reports :=
        [\<lparr>sr_id = 1, sr_submission_id = 7, sr_status = ''ACTIVE''\<rparr>,
         \<lparr>sr_id = 2, sr_submission_id = 7, sr_status = ''INACTIVE''\<rparr>,
         \<lparr>sr_id = 3, sr_submission_id = 9, sr_status = ''ACTIVE''\<rparr>]\<rparr>"

definition teachers_world :: world where
  "teachers_world = contest_world
     \<lparr>w_users := [a_user, an_admin, a_user\<lparr>u_id := 3, u_email := ''new@example.org''\<rparr>],
      w_teachers := [\<lparr>t_user_id = 1, t_is_active = False\<rparr>, \<lparr>t_user_id = 2, t_is_active = True\<rparr>]\<rparr>"

text \<open>A value for the parameter of \<open>activate_pupil_view\<close>: what the manager's
  \<open>get_or_create\<close> does, as \<open>bulk_add_pupils_view\<close> calls it.\<close>

definition ContestTeacher_objects_get_or_create :: "contest \<Rightarrow> teacher \<Rightarrow> world \<Rightarrow> error + world" where
  "ContestTeacher_objects_get_or_create c t w =
     (case [ct \<leftarrow> w_contest_teachers w.
              ct_contest_id ct = c_id c \<and> ct_teacher_user_id ct = t_user_id t] of
        [] \<Rightarrow> Inr (w\<lparr>w_contest_teachers := w_contest_teachers w @
                         [\<lparr>ct_contest_id = c_id c, ct_teacher_user_id = t_user_id t\<rparr>]\<rparr>)
      | [ct] \<Rightarrow> Inr w
      | _ \<Rightarrow> Inl MultipleObjectsReturned)"

section \<open>Decorators, saved rows, concrete inputs\<close>

lemma enforce_condition_pass:
  "cond request \<Longrightarrow> enforce_condition u cond template v request w = v request w"
  by (simp add: enforce_condition_def)

lemma enforce_condition_deny:
  "\<not> cond request \<Longrightarrow>
   enforce_condition u cond template v request w =
     (case on_deny u template request of Inl e \<Rightarrow> Inl e | Inr r \<Rightarrow> Inr (r, w))"
  by (simp add: enforce_condition_def)

lemma require_POST_pass:
  "req_method request = ''POST'' \<Longrightarrow> require_POST v request w = v request w"
  by (simp add: require_POST_def)

lemma map_save_unique:
  assumes "[r \<leftarrow> rows. key r = k] = [r0]" and "key r1 = k" and "\<And>r. key (upd r) = key r"
    and "r1 = upd r0"
  shows "map (\<lambda>r. if key r = key r1 then r1 else r) rows =
         map (\<lambda>r. if key r = k then upd r else r) rows"
proof (intro map_cong refl)
  fix r assume "r \<in> set rows"
  show "(if key r = key r1 then r1 else r) = (if key r = k then upd r else r)"
  proof (cases "key r = k")
    case True
    with \<open>r \<in> set rows\<close> have "r \<in> set [r \<leftarrow> rows. key r = k]" by simp
    with assms(1) have "r = r0" by simp
    with True assms show ?thesis by simp
  next
    case False
    with assms show ?thesis by simp
  qed
qed

lemma filter_map_keep:
  assumes "\<And>r. key (f r) = key r"
  shows "[r \<leftarrow> map f rows. key r = k] = map f [r \<leftarrow> rows. key r = k]"
  by (induction rows) (simp_all add: assms)

lemmas concrete_defs =
  a_user_def an_admin_def a_request_def admin_request_def pi_zad_def pi_hidden_def
  some_utils_def some_controller_def some_framework_def contest_world_def empty_world_def

section \<open>Choosing the statement to stream\<close>

lemma index_None_iff: "index xs x = None \<longleftrightarrow> x \<notin> set xs"
  by (induction xs) auto

lemma index_less: "index xs x = Some i \<Longrightarrow> i < length xs"
  by (induction xs arbitrary: i) (auto split: if_splits)

lemma index_map_Some: "index (map (\<lambda>l. Some (f l)) xs) (Some y) = index (map f xs) y"
  by (induction xs) auto

lemma index_map_Some_None: "index (map (\<lambda>l. Some (f l)) xs) None = None"
  by (induction xs) auto

lemma lang_rank_le: "lang_rank request LANGUAGES lang \<le> 3 + length LANGUAGES"
  by (auto simp: lang_rank_def split: option.splits dest!: index_less)

lemma lang_pref_rank:
  "(case index (lang_prefs request LANGUAGES) lang of Some i \<Rightarrow> i | None \<Rightarrow> maxint) =
     (if lang_rank request LANGUAGES lang < 3 + length LANGUAGES
      then lang_rank request LANGUAGES lang else maxint)"
  by (cases lang)
     (auto simp: lang_prefs_def lang_rank_def index_map_Some index_map_Some_None
           split: option.splits dest!: index_less)

lemma ext_rank_le: "fst (ext_rank e) \<le> 4"
  by (simp add: ext_rank_def)

lemma ext_pref_rank:
  "(case index ext_prefs e of Some i \<Rightarrow> (i, '''') | None \<Rightarrow> (maxint, e)) =
     (if fst (ext_rank e) < 4 then ext_rank e else (maxint, snd (ext_rank e)))"
  by (simp add: ext_prefs_def ext_rank_def)

lemma statement_sort_key_le_iff:
  assumes "length LANGUAGES + 4 \<le> maxint"
  shows "statement_sort_key maxint request LANGUAGES a \<le> statement_sort_key maxint request LANGUAGES b
           \<longleftrightarrow> preference request LANGUAGES a \<le> preference request LANGUAGES b"
proof -
  have la: "lang_rank request LANGUAGES (ps_language a) \<le> 3 + length LANGUAGES"
    and lb: "lang_rank request LANGUAGES (ps_language b) \<le> 3 + length LANGUAGES"
    by (rule lang_rank_le)+
  have ea: "fst (ext_rank (ps_extension a)) \<le> 4" and eb: "fst (ext_rank (ps_extension b)) \<le> 4"
    by (rule ext_rank_le)+
  obtain i s where a: "ext_rank (ps_extension a) = (i, s)" by (cases "ext_rank (ps_extension a)")
  obtain j t where b: "ext_rank (ps_extension b) = (j, t)" by (cases "ext_rank (ps_extension b)")
  show ?thesis
    using assms la lb ea eb
    unfolding statement_sort_key_def preference_def Let_def lang_pref_rank ext_pref_rank a b
    by (auto simp: less_eq_prod_def)
qed

lemma sort_key_head:
  fixes f :: "'a \<Rightarrow> 'k :: linorder"
  assumes "xs \<noteq> []"
  shows "\<exists>s rest pre post. sort_key f xs = s # rest \<and> xs = pre @ s # post \<and>
           (\<forall>t \<in> set pre. f s < f t) \<and> (\<forall>t \<in> set post. f s \<le> f t)"
  using assms
proof (induction xs)
  case Nil
  then show ?case by simp
next
  case (Cons x xs)
  show ?case
  proof (cases "xs = []")
    case True
    have "sort_key f (x # xs) = x # []" "x # xs = [] @ x # []" using True by simp_all
    then show ?thesis by (metis empty_iff list.set(1))
  next
    case False
    from Cons.IH [OF False] obtain s rest pre post where
      h: "sort_key f xs = s # rest" "xs = pre @ s # post"
         "\<forall>t \<in> set pre. f s < f t" "\<forall>t \<in> set post. f s \<le> f t"
      by blast
    show ?thesis
    proof (cases "f x \<le> f s")
      case True
      have "sort_key f (x # xs) = x # s # rest" using h(1) True by simp
      moreover have "x # xs = [] @ x # xs" by simp
      moreover have "\<forall>t \<in> set xs. f x \<le> f t"
        using h(2,3,4) True by (auto intro: order_trans less_imp_le)
      ultimately show ?thesis by (metis empty_iff list.set(1))
    next
      case False
      then have lt: "f s < f x" by simp
      have "sort_key f (x # xs) = s # insort_key f x rest" using h(1) False by simp
      moreover have "x # xs = (x # pre) @ s # post" using h(2) by simp
      moreover have "\<forall>t \<in> set (x # pre). f s < f t" using h(3) lt by simp
      ultimately show ?thesis using h(4) by blast
    qed
  qed
qed
lemma statement_sort_key_less_iff:
  assumes "length LANGUAGES + 4 \<le> maxint"
  shows "statement_sort_key maxint request LANGUAGES a < statement_sort_key maxint request LANGUAGES b
           \<longleftrightarrow> preference request LANGUAGES a < preference request LANGUAGES b"
  using statement_sort_key_le_iff [OF assms, of request b a] by (simp add: not_le [symmetric])

text \<open>
  C1, as the claim states it, fails: it gives one rank to the statements of empty and of
  missing language, where the extension would decide; the view ranks the empty language
  before the missing one. For a problem with a statement of missing language and
  extension \<open>.pdf\<close> and a statement of empty language and extension \<open>.txt\<close>, the view
  streams the second, which the claimed order places strictly after the first.
\<close>

theorem problem_statement_view_counterexample:
  "problem_statement_view some_utils 2147483647 [(''en'', ''English'')] some_controller ''c1'' ''zad''
     a_request contest_world = Inr (StreamFile ''b.txt'', contest_world) \<and>
   [s \<leftarrow> w_problem_statements contest_world. ps_problem_id s = 10] =
     [\<lparr>ps_problem_id = 10, ps_language = None, ps_extension = ''.pdf'', ps_content = ''a.pdf''\<rparr>,
      \<lparr>ps_problem_id = 10, ps_language = Some '''', ps_extension = ''.txt'', ps_content = ''b.txt''\<rparr>] \<and>
   claimed_preference a_request [(''en'', ''English'')]
     \<lparr>ps_problem_id = 10, ps_language = None, ps_extension = ''.pdf'', ps_content = ''a.pdf''\<rparr>
   < claimed_preference a_request [(''en'', ''English'')]
     \<lparr>ps_problem_id = 10, ps_language = Some '''', ps_extension = ''.txt'', ps_content = ''b.txt''\<rparr>"
  by (simp add: problem_statement_view_def enforce_condition_def cond_and_def
        problem_statement_view_body_def statement_sort_key_def lang_prefs_def ext_prefs_def
        stream_file_def claimed_preference_def claimed_lang_rank_def ext_rank_def
        less_eq_prod_def less_prod_def concrete_defs)

text \<open>
  C1, amended. For a request that reaches \<open>problem_statement_view\<close>, whose problem
  instance is found and visible, with at least one \<open>ProblemStatement\<close> for the problem
  (and no more site languages than \<open>sys.maxint\<close> can count): the view streams the first
  statement, in the order of the query, that is minimal under this preference: by
  language, the request's current language, then the empty language, then the missing
  language, then the site languages in their order, then every other language; among
  equals by extension, \<open>.pdf\<close>, \<open>.ps\<close>, \<open>.html\<close>, \<open>.txt\<close>, then the unknown extensions
  ordered by their string.
\<close>

theorem problem_statement_view_spec:
  assumes "contest_exists u request" and "can_enter_contest u request"
      and "[p \<leftarrow> w_problem_instances w.
              pi_round_contest_id p = c_id (req_contest request) \<and>
              pi_short_name p = problem_instance] = [p]"
      and "can_see_problem ctrl request p"
      and "[s \<leftarrow> w_problem_statements w. ps_problem_id s = pi_problem_id p] \<noteq> []"
      and "length LANGUAGES + 4 \<le> maxint"
  shows "\<exists>s pre post.
           problem_statement_view u maxint LANGUAGES ctrl contest_id problem_instance request w =
             Inr (StreamFile (ps_content s), w) \<and>
           [s \<leftarrow> w_problem_statements w. ps_problem_id s = pi_problem_id p] = pre @ s # post \<and>
           (\<forall>t \<in> set pre. preference request LANGUAGES s < preference request LANGUAGES t) \<and>
           (\<forall>t \<in> set post. preference request LANGUAGES s \<le> preference request LANGUAGES t)"
proof -
  let ?statements = "[s \<leftarrow> w_problem_statements w. ps_problem_id s = pi_problem_id p]"
  let ?key = "statement_sort_key maxint request LANGUAGES"
  from sort_key_head [OF assms(5), of ?key] obtain s rest pre post where
    h: "sort_key ?key ?statements = s # rest" "?statements = pre @ s # post"
       "\<forall>t \<in> set pre. ?key s < ?key t" "\<forall>t \<in> set post. ?key s \<le> ?key t"
    by blast
  have "problem_statement_view u maxint LANGUAGES ctrl contest_id problem_instance request w =
          Inr (StreamFile (ps_content s), w)"
    using assms(1-5) h(1)
    by (simp add: problem_statement_view_def cond_and_def enforce_condition_pass
          problem_statement_view_body_def stream_file_def)
  moreover have "\<forall>t \<in> set pre. preference request LANGUAGES s < preference request LANGUAGES t"
    using h(3) by (simp add: statement_sort_key_less_iff [OF assms(6)])
  moreover have "\<forall>t \<in> set post. preference request LANGUAGES s \<le> preference request LANGUAGES t"
    using h(4) by (simp add: statement_sort_key_le_iff [OF assms(6)])
  ultimately show ?thesis using h(2) by blast
qed

theorem problem_statement_view_spec_witness:
  "contest_exists some_utils a_request \<and> can_enter_contest some_utils a_request \<and>
   [p \<leftarrow> w_problem_instances contest_world.
      pi_round_contest_id p = c_id (req_contest a_request) \<and> pi_short_name p = ''zad''] = [pi_zad] \<and>
   can_see_problem some_controller a_request pi_zad \<and>
   [s \<leftarrow> w_problem_statements contest_world. ps_problem_id s = pi_problem_id pi_zad] =
     [\<lparr>ps_problem_id = 10, ps_language = None, ps_extension = ''.pdf'', ps_content = ''a.pdf''\<rparr>,
      \<lparr>ps_problem_id = 10, ps_language = Some '''', ps_extension = ''.txt'', ps_content = ''b.txt''\<rparr>] \<and>
   length [(''en'', ''English'')] + 4 \<le> (2147483647 :: nat) \<and>
   problem_statement_view some_utils 2147483647 [(''en'', ''English'')] some_controller ''c1''
     ''zad'' a_request contest_world = Inr (StreamFile ''b.txt'', contest_world)"
proof -
  let ?A = "\<lparr>ps_problem_id = 10, ps_language = None, ps_extension = ''.pdf'', ps_content = ''a.pdf''\<rparr>"
  let ?B = "\<lparr>ps_problem_id = 10, ps_language = Some '''', ps_extension = ''.txt'', ps_content = ''b.txt''\<rparr>"
  let ?L = "[(''en'', ''English'')]"
  have c: "contest_exists some_utils a_request" "can_enter_contest some_utils a_request"
    "[p \<leftarrow> w_problem_instances contest_world.
      pi_round_contest_id p = c_id (req_contest a_request) \<and> pi_short_name p = ''zad''] = [pi_zad]"
    "can_see_problem some_controller a_request pi_zad"
    by (simp_all add: concrete_defs)
  have st: "[s \<leftarrow> w_problem_statements contest_world. ps_problem_id s = pi_problem_id pi_zad] = [?A, ?B]"
    by (simp add: concrete_defs)
  then have ne: "[s \<leftarrow> w_problem_statements contest_world. ps_problem_id s = pi_problem_id pi_zad] \<noteq> []"
    by simp
  have len: "length ?L + 4 \<le> (2147483647 :: nat)" by simp
  have worse: "\<not> preference a_request ?L ?A \<le> preference a_request ?L ?B"
    by (simp add: preference_def lang_rank_def ext_rank_def less_eq_prod_def a_request_def)
  from problem_statement_view_spec [OF c ne len, of "''c1''"] obtain s pre post where
    h: "problem_statement_view some_utils 2147483647 ?L some_controller ''c1''
          ''zad'' a_request contest_world = Inr (StreamFile (ps_content s), contest_world)"
       "[?A, ?B] = pre @ s # post"
       "\<forall>t \<in> set post. preference a_request ?L s \<le> preference a_request ?L t"
    unfolding st by blast
  from h(2) have "(pre = [] \<and> s = ?A \<and> post = [?B]) \<or> (pre = [?A] \<and> s = ?B \<and> post = [])"
    by (auto simp: Cons_eq_append_conv)
  with h(3) worse have "s = ?B" by auto
  with h(1) c st len show ?thesis by simp
qed

section \<open>Permission failures\<close>

text \<open>
  C2. For a request that passes the contest-entry condition (\<open>contest_exists &
  can_enter_contest\<close>): \<open>problem_statement_view\<close> raises \<open>PermissionDenied\<close> whenever
  the controller's \<open>can_see_problem\<close> is false for the problem instance that was looked
  up, and \<open>problem_attachment_view\<close> raises \<open>PermissionDenied\<close> whenever the problem of
  the requested attachment is not among the problems of the requester's visible problem
  instances. The result is the exception: no response, so nothing is streamed.
\<close>

theorem permission_denied_spec:
  assumes "contest_exists u request" and "can_enter_contest u request"
  shows "(\<forall>p. get_object_or_404
                 [p \<leftarrow> w_problem_instances w.
                    pi_round_contest_id p = c_id (req_contest request) \<and>
                    pi_short_name p = problem_instance] = Inr p \<longrightarrow>
               \<not> can_see_problem ctrl request p \<longrightarrow>
               problem_statement_view u maxint LANGUAGES ctrl contest_id problem_instance request w =
                 Inl PermissionDenied) \<and>
         (\<forall>a. get_object_or_404 [a \<leftarrow> w_problem_attachments w. pa_id a = attachment_id] = Inr a \<longrightarrow>
               pa_problem_id a \<notin> set (map pi_problem_id (visible_problem_instances u request)) \<longrightarrow>
               problem_attachment_view u contest_id attachment_id request w = Inl PermissionDenied)"
  using assms
  by (simp add: problem_statement_view_def problem_attachment_view_def cond_and_def
        enforce_condition_pass problem_statement_view_body_def problem_attachment_view_body_def)

theorem permission_denied_spec_witness:
  "contest_exists some_utils a_request \<and> can_enter_contest some_utils a_request \<and>
   get_object_or_404
     [p \<leftarrow> w_problem_instances contest_world.
        pi_round_contest_id p = c_id (req_contest a_request) \<and> pi_short_name p = ''hidden''] =
     Inr pi_hidden \<and>
   \<not> can_see_problem some_controller a_request pi_hidden \<and>
   problem_statement_view some_utils 2147483647 [(''en'', ''English'')] some_controller ''c1'' ''hidden''
     a_request contest_world = Inl PermissionDenied \<and>
   get_object_or_404 [a \<leftarrow> w_problem_attachments contest_world. pa_id a = 5] =
     Inr \<lparr>pa_id = 5, pa_problem_id = 20, pa_content = ''hidden.zip''\<rparr> \<and>
   20 \<notin> set (map pi_problem_id (visible_problem_instances some_utils a_request)) \<and>
   problem_attachment_view some_utils ''c1'' 5 a_request contest_world = Inl PermissionDenied"
proof -
  have c: "contest_exists some_utils a_request" "can_enter_contest some_utils a_request"
    by (simp_all add: some_utils_def)
  have g1: "get_object_or_404
     [p \<leftarrow> w_problem_instances contest_world.
        pi_round_contest_id p = c_id (req_contest a_request) \<and> pi_short_name p = ''hidden''] =
     Inr pi_hidden"
    by (simp add: concrete_defs)
  have n1: "\<not> can_see_problem some_controller a_request pi_hidden"
    by (simp add: concrete_defs)
  have g2: "get_object_or_404 [a \<leftarrow> w_problem_attachments contest_world. pa_id a = 5] =
     Inr \<lparr>pa_id = 5, pa_problem_id = 20, pa_content = ''hidden.zip''\<rparr>"
    by (simp add: concrete_defs)
  have n2: "pa_problem_id \<lparr>pa_id = 5, pa_problem_id = 20, pa_content = ''hidden.zip''\<rparr>
              \<notin> set (map pi_problem_id (visible_problem_instances some_utils a_request))"
    by (simp add: concrete_defs)
  from permission_denied_spec [OF c, where w = contest_world and problem_instance = "''hidden''"
         and ctrl = some_controller and maxint = 2147483647
         and LANGUAGES = "[(''en'', ''English'')]" and contest_id = "''c1''"
         and attachment_id = 5]
  have "problem_statement_view some_utils 2147483647 [(''en'', ''English'')] some_controller ''c1'' ''hidden''
          a_request contest_world = Inl PermissionDenied"
    and "problem_attachment_view some_utils ''c1'' 5 a_request contest_world = Inl PermissionDenied"
    using g1 n1 g2 n2 by blast+
  with c g1 n1 g2 n2 show ?thesis by simp
qed

section \<open>Submitting\<close>

text \<open>
  C5. For a POST that reaches \<open>submit_view\<close> (its two entry conditions hold): when the
  bound form is invalid, the template \<open>contests/submit.html\<close> is answered with that bound
  form and the world is unchanged, so no submission is created; when the form is valid
  (its cleaned data holding the problem instance), \<open>controller.create_submission\<close> is
  called exactly once, with the request, the problem instance and the cleaned data, and
  the answer is the redirect to \<open>my_submissions\<close> of the contest.
\<close>

theorem submit_view_post_spec:
  assumes "contest_exists u request" and "can_enter_contest u request"
      and "has_any_submittable_problem u request"
      and "req_method request = ''POST''"
  shows "(\<not> form_is_valid u (SubmissionForm request (Some (req_POST request, req_FILES request))) \<longrightarrow>
            submit_view u contest_id request w =
              Inr (TemplateResponse ''contests/submit.html''
                     [(''form'', CForm (SubmissionForm request (Some (req_POST request, req_FILES request))))],
                   w)) \<and>
         (form_is_valid u (SubmissionForm request (Some (req_POST request, req_FILES request))) \<longrightarrow>
            (\<forall>pinst. map_of (form_cleaned_data u
                               (SubmissionForm request (Some (req_POST request, req_FILES request))))
                        ''problem_instance'' = Some pinst \<longrightarrow>
               submit_view u contest_id request w =
                 Inr (redirect ''my_submissions'' [(''contest_id'', PyStr contest_id)],
                      w\<lparr>w_events := w_events w @
                          [CreateSubmission request pinst
                             (form_cleaned_data u
                                (SubmissionForm request (Some (req_POST request, req_FILES request))))]\<rparr>)))"
  using assms
  by (simp add: submit_view_def cond_and_def enforce_condition_pass submit_view_body_def
        create_submission_def add_event_def)

theorem submit_view_post_spec_witness:
  "contest_exists some_utils a_request \<and> can_enter_contest some_utils a_request \<and>
   has_any_submittable_problem some_utils a_request \<and> req_method a_request = ''POST'' \<and>
   \<not> form_is_valid some_utils
       (SubmissionForm a_request (Some (req_POST a_request, req_FILES a_request))) \<and>
   submit_view some_utils ''c1'' a_request empty_world =
     Inr (TemplateResponse ''contests/submit.html''
            [(''form'', CForm (SubmissionForm a_request (Some ([], []))))], empty_world) \<and>
   form_is_valid some_utils
     (SubmissionForm (a_request\<lparr>req_POST := [(''problem_instance'', [''1''])]\<rparr>)
        (Some ([(''problem_instance'', [''1''])], []))) \<and>
   submit_view some_utils ''c1'' (a_request\<lparr>req_POST := [(''problem_instance'', [''1''])]\<rparr>)
     empty_world =
     Inr (redirect ''my_submissions'' [(''contest_id'', PyStr ''c1'')],
          empty_world\<lparr>w_events :=
            [CreateSubmission (a_request\<lparr>req_POST := [(''problem_instance'', [''1''])]\<rparr>)
               (FProblemInstance pi_zad) [(''problem_instance'', FProblemInstance pi_zad)]]\<rparr>)"
proof -
  let ?r2 = "a_request\<lparr>req_POST := [(''problem_instance'', [''1''])]\<rparr>"
  have c1: "contest_exists some_utils a_request" "can_enter_contest some_utils a_request"
    "has_any_submittable_problem some_utils a_request" "req_method a_request = ''POST''"
    by (simp_all add: some_utils_def a_request_def)
  have c2: "contest_exists some_utils ?r2" "can_enter_contest some_utils ?r2"
    "has_any_submittable_problem some_utils ?r2" "req_method ?r2 = ''POST''"
    by (simp_all add: some_utils_def a_request_def)
  have inv: "\<not> form_is_valid some_utils
       (SubmissionForm a_request (Some (req_POST a_request, req_FILES a_request)))"
    by (simp add: some_utils_def a_request_def qd_contains_def)
  have val: "form_is_valid some_utils (SubmissionForm ?r2 (Some (req_POST ?r2, req_FILES ?r2)))"
    by (simp add: some_utils_def a_request_def qd_contains_def)
  have cd: "map_of (form_cleaned_data some_utils
                      (SubmissionForm ?r2 (Some (req_POST ?r2, req_FILES ?r2))))
              ''problem_instance'' = Some (FProblemInstance pi_zad)"
    by (simp add: some_utils_def)
  have fields: "req_POST a_request = []" "req_FILES a_request = []"
    "req_POST ?r2 = [(''problem_instance'', [''1''])]" "req_FILES ?r2 = []"
    "form_cleaned_data some_utils f = [(''problem_instance'', FProblemInstance pi_zad)]"
    "w_events empty_world = []" for f
    by (simp_all add: a_request_def some_utils_def empty_world_def)
  from submit_view_post_spec [OF c1, of "''c1''" empty_world] inv
  have t1: "submit_view some_utils ''c1'' a_request empty_world =
     Inr (TemplateResponse ''contests/submit.html''
            [(''form'', CForm (SubmissionForm a_request (Some ([], []))))], empty_world)"
    by (simp add: fields)
  from submit_view_post_spec [OF c2, of "''c1''" empty_world] val cd
  have t2: "submit_view some_utils ''c1'' ?r2 empty_world =
     Inr (redirect ''my_submissions'' [(''contest_id'', PyStr ''c1'')],
          empty_world\<lparr>w_events :=
            [CreateSubmission ?r2 (FProblemInstance pi_zad)
               [(''problem_instance'', FProblemInstance pi_zad)]]\<rparr>)"
    by (simp add: fields)
  from c1 inv val t1 t2 show ?thesis by (simp add: fields)
qed

section \<open>The page of one submission\<close>

text \<open>
  C8. For a request that reaches \<open>submission_view\<close> and whose submission is found, with
  a controller whose \<open>filter_visible_reports\<close> only selects among the reports it is
  given: the \<open>reports\<close> of the page are the renderings of what the controller keeps of
  the ACTIVE reports of the submission, so every rendered report is ACTIVE; \<open>all_reports\<close>
  is the empty list whenever the requester is not a contest admin, so a report that is
  not ACTIVE reaches the page through \<open>all_reports\<close> only for a contest admin.
\<close>

theorem submission_view_reports_spec:
  assumes "contest_exists u request" and "can_enter_contest u request"
      and "get_submission_or_404 u request contest_id submission_id = Inr s"
      and "\<forall>q. set (filter_visible_reports ctrl request s q) \<subseteq> set q"
  shows "\<exists>visible all_reports.
           submission_view u ctrl contest_id submission_id request w =
             Inr (TemplateResponse ''contests/submission.html''
                    [(''submission'', CSubmission s),
                     (''header'', CStr (render_submission ctrl request s)),
                     (''footer'', CStr (render_submission_footer ctrl request s)),
                     (''reports'', CStrs (map (render_report ctrl request) visible)),
                     (''all_reports'', CReports all_reports)], w) \<and>
           visible = filter_visible_reports ctrl request s
                       [r \<leftarrow> w_submission_reports w.
                          sr_submission_id r = sub_id s \<and> sr_status r = ''ACTIVE''] \<and>
           (\<forall>r \<in> set visible. sr_status r = ''ACTIVE'' \<and> sr_submission_id r = sub_id s \<and>
                                r \<in> set (w_submission_reports w)) \<and>
           (\<not> is_contest_admin u request \<longrightarrow> all_reports = []) \<and>
           (\<forall>r \<in> set all_reports. sr_status r \<noteq> ''ACTIVE'' \<longrightarrow> is_contest_admin u request)"
proof -
  let ?q = "[r \<leftarrow> w_submission_reports w. sr_submission_id r = sub_id s]"
  let ?visible = "filter_visible_reports ctrl request s [r \<leftarrow> ?q. sr_status r = ''ACTIVE'']"
  let ?all = "and_or (is_contest_admin u request) (filter_visible_reports ctrl request s ?q) []"
  have run: "submission_view u ctrl contest_id submission_id request w =
             Inr (TemplateResponse ''contests/submission.html''
                    [(''submission'', CSubmission s),
                     (''header'', CStr (render_submission ctrl request s)),
                     (''footer'', CStr (render_submission_footer ctrl request s)),
                     (''reports'', CStrs (map (render_report ctrl request) ?visible)),
                     (''all_reports'', CReports ?all)], w)"
    using assms(1-3)
    by (simp add: submission_view_def cond_and_def enforce_condition_pass submission_view_body_def)
  have eq: "?visible = filter_visible_reports ctrl request s
                       [r \<leftarrow> w_submission_reports w.
                          sr_submission_id r = sub_id s \<and> sr_status r = ''ACTIVE'']"
    by simp
  have act: "\<forall>r \<in> set ?visible. sr_status r = ''ACTIVE'' \<and> sr_submission_id r = sub_id s \<and>
                                r \<in> set (w_submission_reports w)"
  proof
    fix r assume "r \<in> set ?visible"
    with assms(4) have "r \<in> set [r \<leftarrow> ?q. sr_status r = ''ACTIVE'']" by blast
    then show "sr_status r = ''ACTIVE'' \<and> sr_submission_id r = sub_id s \<and>
                                r \<in> set (w_submission_reports w)" by simp
  qed
  have na: "\<not> is_contest_admin u request \<longrightarrow> ?all = []"
    by (simp add: and_or_def)
  have only: "\<forall>r \<in> set ?all. sr_status r \<noteq> ''ACTIVE'' \<longrightarrow> is_contest_admin u request"
    by (auto simp: and_or_def split: if_splits)
  from run eq act na only show ?thesis by blast
qed

theorem submission_view_reports_spec_witness:
  "contest_exists some_utils a_request \<and> can_enter_contest some_utils a_request \<and>
   get_submission_or_404 some_utils a_request ''c1'' ''7'' = Inr sub_a \<and>
   (\<forall>q. set (filter_visible_reports some_controller a_request sub_a q) \<subseteq> set q) \<and>
   \<not> is_contest_admin some_utils a_request \<and>
   submission_view some_utils some_controller ''c1'' ''7'' a_request contest_world =
     Inr (TemplateResponse ''contests/submission.html''
            [(''submission'', CSubmission sub_a), (''header'', CStr ''header''),
             (''footer'', CStr ''footer''), (''reports'', CStrs [''ACTIVE'']),
             (''all_reports'', CReports [])], contest_world)"
proof -
  have c: "contest_exists some_utils a_request" "can_enter_contest some_utils a_request"
    "get_submission_or_404 some_utils a_request ''c1'' ''7'' = Inr sub_a"
    "\<forall>q. set (filter_visible_reports some_controller a_request sub_a q) \<subseteq> set q"
    by (simp_all add: some_utils_def some_controller_def)
  have na: "\<not> is_contest_admin some_utils a_request"
    by (simp add: some_utils_def a_request_def a_user_def)
  have fields:
    "filter_visible_reports some_controller a_request sub_a
       [r \<leftarrow> w_submission_reports contest_world.
          sr_submission_id r = sub_id sub_a \<and> sr_status r = ''ACTIVE''] =
       [\<lparr>sr_id = 1, sr_submission_id = 7, sr_status = ''ACTIVE''\<rparr>]"
    "render_submission some_controller a_request sub_a = ''header''"
    "render_submission_footer some_controller a_request sub_a = ''footer''"
    "render_report some_controller a_request = sr_status"
    by (simp_all add: some_controller_def contest_world_def empty_world_def sub_a_def)
  from submission_view_reports_spec [OF c, of contest_world] na show ?thesis
    using c by (auto simp: fields)
qed

section \<open>Rejudging and changing the kind of a submission\<close>

text \<open>
  C6. For a POST by a contest admin with an existing submission,
  \<open>rejudge_submission_view\<close> calls \<open>controller.judge\<close> exactly once, on that submission
  and with \<open>request.GET.dict()\<close>, then records the informational message, and redirects
  to the page of that submission. The view body is reached only by contest admins and
  only by POST: any other requester gets what the entry condition answers, an admin
  using another method gets 405, and in both cases the world is unchanged.
\<close>

theorem rejudge_submission_view_spec:
  "(contest_exists u request \<and> is_contest_admin u request \<and> req_method request = ''POST'' \<longrightarrow>
      (\<forall>s. get_submission_or_404 u request contest_id submission_id = Inr s \<longrightarrow>
         rejudge_submission_view u contest_id submission_id request w =
           Inr (redirect ''submission''
                  [(''contest_id'', PyStr contest_id), (''submission_id'', PyStr submission_id)],
                w\<lparr>w_events := w_events w @
                    [Judge s (qd_dict (req_GET request)),
                     Message INFO ''Rejudge request received.'' []]\<rparr>))) \<and>
   (\<not> (contest_exists u request \<and> is_contest_admin u request) \<longrightarrow>
      rejudge_submission_view u contest_id submission_id request w =
        (case on_deny u None request of Inl e \<Rightarrow> Inl e | Inr r \<Rightarrow> Inr (r, w))) \<and>
   (contest_exists u request \<and> is_contest_admin u request \<and> req_method request \<noteq> ''POST'' \<longrightarrow>
      rejudge_submission_view u contest_id submission_id request w =
        Inr (HttpResponseNotAllowed [''POST''], w))"
  by (simp add: rejudge_submission_view_def cond_and_def enforce_condition_def require_POST_def
        rejudge_submission_view_body_def messages_info_def judge_def add_event_def)

theorem rejudge_submission_view_spec_witness:
  "contest_exists some_utils admin_request \<and> is_contest_admin some_utils admin_request \<and>
   req_method admin_request = ''POST'' \<and>
   get_submission_or_404 some_utils admin_request ''c1'' ''7'' = Inr sub_a \<and>
   rejudge_submission_view some_utils ''c1'' ''7'' admin_request empty_world =
     Inr (redirect ''submission'' [(''contest_id'', PyStr ''c1''), (''submission_id'', PyStr ''7'')],
          empty_world\<lparr>w_events :=
            [Judge sub_a [(''kind'', PyStr ''FULL'')], Message INFO ''Rejudge request received.'' []]\<rparr>) \<and>
   \<not> (contest_exists some_utils a_request \<and> is_contest_admin some_utils a_request) \<and>
   rejudge_submission_view some_utils ''c1'' ''7'' a_request empty_world = Inl PermissionDenied \<and>
   req_method (admin_request\<lparr>req_method := ''GET''\<rparr>) \<noteq> ''POST'' \<and>
   rejudge_submission_view some_utils ''c1'' ''7'' (admin_request\<lparr>req_method := ''GET''\<rparr>) empty_world =
     Inr (HttpResponseNotAllowed [''POST''], empty_world)"
proof -
  let ?g = "admin_request\<lparr>req_method := ''GET''\<rparr>"
  have c: "contest_exists some_utils admin_request" "is_contest_admin some_utils admin_request"
    "req_method admin_request = ''POST''"
    "get_submission_or_404 some_utils admin_request ''c1'' ''7'' = Inr sub_a"
    "\<not> (contest_exists some_utils a_request \<and> is_contest_admin some_utils a_request)"
    "contest_exists some_utils ?g" "is_contest_admin some_utils ?g" "req_method ?g \<noteq> ''POST''"
    by (simp_all add: some_utils_def admin_request_def a_request_def an_admin_def a_user_def)
  have fields: "qd_dict (req_GET admin_request) = [(''kind'', PyStr ''FULL'')]"
    "w_events empty_world = []" "on_deny some_utils None a_request = Inl PermissionDenied"
    by (simp_all add: admin_request_def qd_dict_def qd_value_def empty_world_def some_utils_def)
  note t = rejudge_submission_view_spec [of some_utils _ "''c1''" "''7''" empty_world]
  from t [of admin_request] c
  have t1: "rejudge_submission_view some_utils ''c1'' ''7'' admin_request empty_world =
     Inr (redirect ''submission'' [(''contest_id'', PyStr ''c1''), (''submission_id'', PyStr ''7'')],
          empty_world\<lparr>w_events :=
            [Judge sub_a [(''kind'', PyStr ''FULL'')], Message INFO ''Rejudge request received.'' []]\<rparr>)"
    by (simp add: fields)
  from t [of a_request] c
  have t2: "rejudge_submission_view some_utils ''c1'' ''7'' a_request empty_world = Inl PermissionDenied"
    by (simp add: fields)
  from t [of ?g] c
  have t3: "rejudge_submission_view some_utils ''c1'' ''7'' ?g empty_world =
     Inr (HttpResponseNotAllowed [''POST''], empty_world)"
    by simp
  from c t1 t2 t3 show ?thesis by simp
qed

text \<open>
  C9. For a POST by a contest admin with an existing submission,
  \<open>change_submission_kind_view\<close> calls \<open>controller.change_submission_kind\<close> (and records
  the success message) exactly when the requested kind is among
  \<open>controller.valid_kinds_for_submission(submission)\<close>; otherwise the only effect is the
  error message. Both cases redirect to the page of that submission.
\<close>

theorem change_submission_kind_view_spec:
  assumes "contest_exists u request" and "is_contest_admin u request"
      and "req_method request = ''POST''"
      and "get_submission_or_404 u request contest_id submission_id = Inr s"
  shows "change_submission_kind_view u ctrl contest_id submission_id kind request w =
           Inr (redirect ''submission''
                  [(''contest_id'', PyStr contest_id), (''submission_id'', PyStr submission_id)],
                w\<lparr>w_events := w_events w @
                    (if kind \<in> set (valid_kinds_for_submission ctrl s)
                     then [ChangeSubmissionKind s kind,
                           Message SUCCESS ''Submission kind has been changed.'' []]
                     else [Message ERROR
                             ''%(kind)s is not valid kind for submission %(submission_id)d.''
                             [(''kind'', PyStr kind), (''submission_id'', PyInt (sub_id s))]])\<rparr>)"
  using assms
  by (simp add: change_submission_kind_view_def cond_and_def enforce_condition_pass
        require_POST_pass change_submission_kind_view_body_def messages_success_def
        messages_error_def change_submission_kind_def add_event_def)

theorem change_submission_kind_view_spec_witness:
  "contest_exists some_utils admin_request \<and> is_contest_admin some_utils admin_request \<and>
   req_method admin_request = ''POST'' \<and>
   get_submission_or_404 some_utils admin_request ''c1'' ''7'' = Inr sub_a \<and>
   change_submission_kind_view some_utils some_controller ''c1'' ''7'' ''IGNORED'' admin_request
     empty_world =
     Inr (redirect ''submission'' [(''contest_id'', PyStr ''c1''), (''submission_id'', PyStr ''7'')],
          empty_world\<lparr>w_events :=
            [ChangeSubmissionKind sub_a ''IGNORED'',
             Message SUCCESS ''Submission kind has been changed.'' []]\<rparr>) \<and>
   change_submission_kind_view some_utils some_controller ''c1'' ''7'' ''BOGUS'' admin_request
     empty_world =
     Inr (redirect ''submission'' [(''contest_id'', PyStr ''c1''), (''submission_id'', PyStr ''7'')],
          empty_world\<lparr>w_events :=
            [Message ERROR ''%(kind)s is not valid kind for submission %(submission_id)d.''
               [(''kind'', PyStr ''BOGUS''), (''submission_id'', PyInt 7)]]\<rparr>)"
proof -
  have c: "contest_exists some_utils admin_request" "is_contest_admin some_utils admin_request"
    "req_method admin_request = ''POST''"
    "get_submission_or_404 some_utils admin_request ''c1'' ''7'' = Inr sub_a"
    by (simp_all add: some_utils_def admin_request_def a_request_def an_admin_def)
  have fields: "valid_kinds_for_submission some_controller sub_a = [''NORMAL'', ''IGNORED'']"
    "w_events empty_world = []" "sub_id sub_a = 7"
    by (simp_all add: some_controller_def empty_world_def sub_a_def)
  note t = change_submission_kind_view_spec [OF c, of some_controller _ empty_world]
  from t [of "''IGNORED''"] t [of "''BOGUS''"] c show ?thesis by (simp add: fields)
qed

section \<open>Accepting a teacher\<close>

lemma send_acceptance_email_event:
  "\<exists>subject body. \<forall>w. send_acceptance_email fw request teacher w =
      w\<lparr>w_events := w_events w @ [EmailUser (t_user_id teacher) subject body]\<rparr>"
  unfolding send_acceptance_email_def email_user_def add_event_def Let_def by blast

lemma subject_example:
  "join '' '' (splitlines (strip '' Accepted\<newline> as teacher '')) = ''Accepted  as teacher''"
  by (simp add: strip_def splitlines_def is_space_def is_linebreak_def)

text \<open>
  C4. For a superuser's request to accept a teacher for an existing user, the acceptance
  e-mail is sent exactly when the teacher record (the one found, or the one
  \<open>get_or_create\<close> has just made with the model's default) is not active: then the
  record is made active, one e-mail goes to the user and the success message is
  recorded. When the record is already active it is left as it is, no e-mail is sent and
  the informational message is recorded. Both cases redirect to the teacher changelist.
\<close>

theorem accept_teacher_view_spec:
  assumes "is_superuser (req_user request)"
      and "[x \<leftarrow> w_users w. u_id x = uid] = [usr]"
  shows "(\<forall>t. [t \<leftarrow> w_teachers w. t_user_id t = uid] = [t] \<longrightarrow>
            (t_is_active t \<longrightarrow>
               accept_teacher_view fw default_is_active uid request w =
                 Inr (redirect ''oioioiadmin:teachers_teacher_changelist'' [],
                      w\<lparr>w_events := w_events w @ [Message INFO ''User already accepted.'' []]\<rparr>)) \<and>
            (\<not> t_is_active t \<longrightarrow>
               (\<exists>subject body.
                  accept_teacher_view fw default_is_active uid request w =
                    Inr (redirect ''oioioiadmin:teachers_teacher_changelist'' [],
                         w\<lparr>w_teachers :=
                             map (\<lambda>r. if t_user_id r = uid then r\<lparr>t_is_active := True\<rparr> else r)
                               (w_teachers w),
                           w_events := w_events w @
                             [EmailUser uid subject body,
                              Message SUCCESS
                                ''Successfully accepted and emailed the new teacher.'' []]\<rparr>)))) \<and>
         ([t \<leftarrow> w_teachers w. t_user_id t = uid] = [] \<longrightarrow>
            (default_is_active \<longrightarrow>
               accept_teacher_view fw default_is_active uid request w =
                 Inr (redirect ''oioioiadmin:teachers_teacher_changelist'' [],
                      w\<lparr>w_teachers := w_teachers w @ [\<lparr>t_user_id = uid, t_is_active = True\<rparr>],
                        w_events := w_events w @ [Message INFO ''User already accepted.'' []]\<rparr>)) \<and>
            (\<not> default_is_active \<longrightarrow>
               (\<exists>subject body.
                  accept_teacher_view fw default_is_active uid request w =
                    Inr (redirect ''oioioiadmin:teachers_teacher_changelist'' [],
                         w\<lparr>w_teachers := w_teachers w @ [\<lparr>t_user_id = uid, t_is_active = True\<rparr>],
                           w_events := w_events w @
                             [EmailUser uid subject body,
                              Message SUCCESS
                                ''Successfully accepted and emailed the new teacher.'' []]\<rparr>))))"
proof -
  have usr: "u_id usr = uid"
  proof -
    have "usr \<in> set [x \<leftarrow> w_users w. u_id x = uid]" unfolding assms(2) by simp
    then show ?thesis by simp
  qed
  note defs = accept_teacher_view_def user_passes_test_def accept_teacher_view_body_def
    Teacher_get_or_create_def Teacher_save_def
    messages_info_def messages_success_def add_event_def Let_def
  show ?thesis
  proof (intro conjI allI impI)
    fix t assume "[t \<leftarrow> w_teachers w. t_user_id t = uid] = [t]" "t_is_active t"
    then show "accept_teacher_view fw default_is_active uid request w =
                 Inr (redirect ''oioioiadmin:teachers_teacher_changelist'' [],
                      w\<lparr>w_events := w_events w @ [Message INFO ''User already accepted.'' []]\<rparr>)"
      using assms usr by (simp add: defs)
  next
    fix t assume t: "[t \<leftarrow> w_teachers w. t_user_id t = uid] = [t]" "\<not> t_is_active t"
    have tu: "t_user_id t = uid"
    proof -
      have "t \<in> set [t \<leftarrow> w_teachers w. t_user_id t = uid]" unfolding t(1) by simp
      then show ?thesis by simp
    qed
    have "map (\<lambda>r. if t_user_id r = t_user_id (t\<lparr>t_is_active := True\<rparr>)
                       then t\<lparr>t_is_active := True\<rparr> else r) (w_teachers w) =
             map (\<lambda>r. if t_user_id r = uid then r\<lparr>t_is_active := True\<rparr> else r) (w_teachers w)"
      by (rule map_save_unique [OF t(1)]) (simp_all add: tu)
    then have m: "map (\<lambda>r. if t_user_id r = uid then t\<lparr>t_is_active := True\<rparr> else r)
                    (w_teachers w) =
             map (\<lambda>r. if t_user_id r = uid then r\<lparr>t_is_active := True\<rparr> else r) (w_teachers w)"
      by (simp add: tu)
    from send_acceptance_email_event [of fw request "t\<lparr>t_is_active := True\<rparr>"]
    obtain subject body where
      mail: "\<And>w. send_acceptance_email fw request (t\<lparr>t_is_active := True\<rparr>) w =
               w\<lparr>w_events := w_events w @ [EmailUser uid subject body]\<rparr>"
      using tu by auto
    have "accept_teacher_view fw default_is_active uid request w =
                    Inr (redirect ''oioioiadmin:teachers_teacher_changelist'' [],
                         w\<lparr>w_teachers :=
                             map (\<lambda>r. if t_user_id r = uid then r\<lparr>t_is_active := True\<rparr> else r)
                               (w_teachers w),
                           w_events := w_events w @
                             [EmailUser uid subject body,
                              Message SUCCESS
                                ''Successfully accepted and emailed the new teacher.'' []]\<rparr>)"
      using assms usr t tu m by (simp add: defs mail)
    then
    show "\<exists>subject body.
                  accept_teacher_view fw default_is_active uid request w =
                    Inr (redirect ''oioioiadmin:teachers_teacher_changelist'' [],
                         w\<lparr>w_teachers :=
                             map (\<lambda>r. if t_user_id r = uid then r\<lparr>t_is_active := True\<rparr> else r)
                               (w_teachers w),
                           w_events := w_events w @
                             [EmailUser uid subject body,
                              Message SUCCESS
                                ''Successfully accepted and emailed the new teacher.'' []]\<rparr>)"
      by blast
  next
    assume "[t \<leftarrow> w_teachers w. t_user_id t = uid] = []" default_is_active
    then show "accept_teacher_view fw default_is_active uid request w =
                 Inr (redirect ''oioioiadmin:teachers_teacher_changelist'' [],
                      w\<lparr>w_teachers := w_teachers w @ [\<lparr>t_user_id = uid, t_is_active = True\<rparr>],
                        w_events := w_events w @ [Message INFO ''User already accepted.'' []]\<rparr>)"
      using assms usr by (simp add: defs)
  next
    assume n: "[t \<leftarrow> w_teachers w. t_user_id t = uid] = []" "\<not> default_is_active"
    then have none: "\<forall>r \<in> set (w_teachers w). t_user_id r \<noteq> uid"
      by (simp add: filter_empty_conv)
    then have m: "map (\<lambda>r. if t_user_id r = uid then \<lparr>t_user_id = uid, t_is_active = True\<rparr> else r)
                    (w_teachers w) = w_teachers w"
      by (simp add: map_idI)
    from send_acceptance_email_event [of fw request "\<lparr>t_user_id = uid, t_is_active = True\<rparr>"]
    obtain subject body where
      mail: "\<And>w. send_acceptance_email fw request \<lparr>t_user_id = uid, t_is_active = True\<rparr> w =
               w\<lparr>w_events := w_events w @ [EmailUser uid subject body]\<rparr>"
      by auto
    have "accept_teacher_view fw default_is_active uid request w =
                    Inr (redirect ''oioioiadmin:teachers_teacher_changelist'' [],
                         w\<lparr>w_teachers := w_teachers w @ [\<lparr>t_user_id = uid, t_is_active = True\<rparr>],
                           w_events := w_events w @
                             [EmailUser uid subject body,
                              Message SUCCESS
                                ''Successfully accepted and emailed the new teacher.'' []]\<rparr>)"
      using assms usr n m by (simp add: defs mail)
    then show "\<exists>subject body.
                  accept_teacher_view fw default_is_active uid request w =
                    Inr (redirect ''oioioiadmin:teachers_teacher_changelist'' [],
                         w\<lparr>w_teachers := w_teachers w @ [\<lparr>t_user_id = uid, t_is_active = True\<rparr>],
                           w_events := w_events w @
                             [EmailUser uid subject body,
                              Message SUCCESS
                                ''Successfully accepted and emailed the new teacher.'' []]\<rparr>)"
      by blast
  qed
qed

theorem accept_teacher_view_spec_witness:
  "is_superuser (req_user admin_request) \<and>
   [x \<leftarrow> w_users teachers_world. u_id x = 2] = [an_admin] \<and>
   [t \<leftarrow> w_teachers teachers_world. t_user_id t = 2] = [\<lparr>t_user_id = 2, t_is_active = True\<rparr>] \<and>
   accept_teacher_view some_framework False 2 admin_request teachers_world =
     Inr (redirect ''oioioiadmin:teachers_teacher_changelist'' [],
          teachers_world\<lparr>w_events := [Message INFO ''User already accepted.'' []]\<rparr>) \<and>
   [x \<leftarrow> w_users teachers_world. u_id x = 1] = [a_user] \<and>
   [t \<leftarrow> w_teachers teachers_world. t_user_id t = 1] = [\<lparr>t_user_id = 1, t_is_active = False\<rparr>] \<and>
   accept_teacher_view some_framework False 1 admin_request teachers_world =
     Inr (redirect ''oioioiadmin:teachers_teacher_changelist'' [],
          teachers_world
            \<lparr>w_teachers := [\<lparr>t_user_id = 1, t_is_active = True\<rparr>, \<lparr>t_user_id = 2, t_is_active = True\<rparr>],
             w_events := [EmailUser 1 ''Accepted  as teacher'' ''Welcome'',
                          Message SUCCESS ''Successfully accepted and emailed the new teacher.'' []]\<rparr>) \<and>
   [x \<leftarrow> w_users teachers_world. u_id x = 3] =
     [a_user\<lparr>u_id := 3, u_email := ''new@example.org''\<rparr>] \<and>
   [t \<leftarrow> w_teachers teachers_world. t_user_id t = 3] = [] \<and>
   (\<exists>subject body.
      accept_teacher_view some_framework False 3 admin_request teachers_world =
        Inr (redirect ''oioioiadmin:teachers_teacher_changelist'' [],
             teachers_world
               \<lparr>w_teachers := [\<lparr>t_user_id = 1, t_is_active = False\<rparr>,
                               \<lparr>t_user_id = 2, t_is_active = True\<rparr>,
                               \<lparr>t_user_id = 3, t_is_active = True\<rparr>],
                w_events := [EmailUser 3 subject body,
                             Message SUCCESS
                               ''Successfully accepted and emailed the new teacher.'' []]\<rparr>))"
proof -
  have su: "is_superuser (req_user admin_request)"
    by (simp add: admin_request_def an_admin_def)
  have u2: "[x \<leftarrow> w_users teachers_world. u_id x = 2] = [an_admin]"
    and u1: "[x \<leftarrow> w_users teachers_world. u_id x = 1] = [a_user]"
    and t2: "[t \<leftarrow> w_teachers teachers_world. t_user_id t = 2] = [\<lparr>t_user_id = 2, t_is_active = True\<rparr>]"
    and t1: "[t \<leftarrow> w_teachers teachers_world. t_user_id t = 1] = [\<lparr>t_user_id = 1, t_is_active = False\<rparr>]"
    and u3: "[x \<leftarrow> w_users teachers_world. u_id x = 3] =
               [a_user\<lparr>u_id := 3, u_email := ''new@example.org''\<rparr>]"
    and t3: "[t \<leftarrow> w_teachers teachers_world. t_user_id t = 3] = []"
    by (simp_all add: teachers_world_def a_user_def an_admin_def)
  have ev: "w_events teachers_world = []"
    and ts: "w_teachers teachers_world =
               [\<lparr>t_user_id = 1, t_is_active = False\<rparr>, \<lparr>t_user_id = 2, t_is_active = True\<rparr>]"
    by (simp_all add: teachers_world_def contest_world_def empty_world_def)
  from accept_teacher_view_spec [OF su u2, of some_framework False] t2
  have r2: "accept_teacher_view some_framework False 2 admin_request teachers_world =
     Inr (redirect ''oioioiadmin:teachers_teacher_changelist'' [],
          teachers_world\<lparr>w_events := [Message INFO ''User already accepted.'' []]\<rparr>)"
    by (simp add: ev)
  from accept_teacher_view_spec [OF su u1, of some_framework False] t1
  obtain subject body where
    r1: "accept_teacher_view some_framework False 1 admin_request teachers_world =
     Inr (redirect ''oioioiadmin:teachers_teacher_changelist'' [],
          teachers_world
            \<lparr>w_teachers := [\<lparr>t_user_id = 1, t_is_active = True\<rparr>, \<lparr>t_user_id = 2, t_is_active = True\<rparr>],
             w_events := [EmailUser 1 subject body,
                          Message SUCCESS ''Successfully accepted and emailed the new teacher.'' []]\<rparr>)"
    by (auto simp: ev ts)
  have mail: "send_acceptance_email some_framework admin_request \<lparr>t_user_id = 1, t_is_active = True\<rparr> w =
          w\<lparr>w_events := w_events w @ [EmailUser 1 ''Accepted  as teacher'' ''Welcome'']\<rparr>" for w
    by (simp add: send_acceptance_email_def email_user_def add_event_def some_framework_def
          subject_example)
  have "accept_teacher_view some_framework False 1 admin_request teachers_world =
     Inr (redirect ''oioioiadmin:teachers_teacher_changelist'' [],
          teachers_world
            \<lparr>w_teachers := [\<lparr>t_user_id = 1, t_is_active = True\<rparr>, \<lparr>t_user_id = 2, t_is_active = True\<rparr>],
             w_events := [EmailUser 1 ''Accepted  as teacher'' ''Welcome'',
                          Message SUCCESS ''Successfully accepted and emailed the new teacher.'' []]\<rparr>)"
    using su u1 t1
    by (simp add: accept_teacher_view_def user_passes_test_def accept_teacher_view_body_def
          Teacher_get_or_create_def Teacher_save_def messages_success_def add_event_def
          a_user_def mail ev ts)
  moreover
  from accept_teacher_view_spec [OF su u3, of some_framework False] t3
  have "\<exists>subject body.
      accept_teacher_view some_framework False 3 admin_request teachers_world =
        Inr (redirect ''oioioiadmin:teachers_teacher_changelist'' [],
             teachers_world
               \<lparr>w_teachers := [\<lparr>t_user_id = 1, t_is_active = False\<rparr>,
                               \<lparr>t_user_id = 2, t_is_active = True\<rparr>,
                               \<lparr>t_user_id = 3, t_is_active = True\<rparr>],
                w_events := [EmailUser 3 subject body,
                             Message SUCCESS
                               ''Successfully accepted and emailed the new teacher.'' []]\<rparr>)"
    by (simp add: ev ts)
  ultimately show ?thesis using r1 r2 su u1 u2 u3 t1 t2 t3 by simp
qed

section \<open>Activating a pupil\<close>

text \<open>
  C3, as the claim states it, fails: a logged-in user who holds the teacher permission
  and sends no \<open>register_as\<close> meets the stored key while registration is active, and is
  answered the page \<open>teachers/activation_type.html\<close> with no record created.
\<close>

theorem activate_pupil_view_counterexample:
  "is_authenticated (req_user admin_request) \<and>
   [rc \<leftarrow> w_registration_configs contest_world. rc_contest_id rc = c_id (req_contest admin_request)] =
     [\<lparr>rc_contest_id = ''c1'', rc_is_active = True, rc_key = ''k1''\<rparr>] \<and>
   activate_pupil_view some_framework ContestTeacher_objects_get_or_create ''c1'' ''k1''
     admin_request contest_world =
     Inr (TemplateResponse ''teachers/activation_type.html'' [(''key'', CStr ''k1'')], contest_world)"
  by (simp add: activate_pupil_view_def login_required_def user_passes_test_def
        activate_pupil_view_body_def REQUEST_contains_def qd_contains_def concrete_defs)

text \<open>
  C3, amended. For a logged-in user visiting \<open>activate_pupil_view\<close> of a contest that has
  its \<open>RegistrationConfig\<close>: when the key differs from the stored key or registration is
  not active, the activation-error page is answered and the world is unchanged, so no
  registration record is created. When the key is the stored key and registration is
  active, a user without the teacher permission (or a teacher who chose \<open>pupil\<close>) who
  has no \<open>Pupil\<close> record of the contest gets one, and one who has a record keeps it
  with no second record made; both are answered the redirect to the contest with the
  success message, so activating again succeeds and adds nothing. A user with the
  teacher permission who sent no \<open>register_as\<close> is answered the page to choose, and the
  world is unchanged.
\<close>

theorem activate_pupil_view_spec:
  assumes "is_authenticated (req_user request)"
      and "[rc \<leftarrow> w_registration_configs w. rc_contest_id rc = c_id (req_contest request)] = [rc]"
  shows "(rc_key rc \<noteq> key \<or> \<not> rc_is_active rc \<longrightarrow>
            activate_pupil_view fw ct_get_or_create contest_id key request w =
              Inr (TemplateResponse ''teachers/activation_error.html''
                     [(''key_ok'', CBool (rc_key rc = key)),
                      (''registration_active'', CBool (rc_is_active rc))], w)) \<and>
         (rc_key rc = key \<and> rc_is_active rc \<and>
          (\<not> has_perm fw (req_user request) ''teachers.teacher'' \<or>
           REQUEST_contains request ''register_as'' \<and>
           REQUEST_getitem request ''register_as'' = Inr (PyStr ''pupil'')) \<longrightarrow>
            ([p \<leftarrow> w_pupils w. p_contest_id p = c_id (req_contest request) \<and>
                                p_user_id p = u_id (req_user request)] = [] \<longrightarrow>
               activate_pupil_view fw ct_get_or_create contest_id key request w =
                 Inr (redirect ''default_contest_view'' [(''contest_id'', PyStr contest_id)],
                      w\<lparr>w_pupils := w_pupils w @
                            [\<lparr>p_contest_id = c_id (req_contest request),
                              p_user_id = u_id (req_user request)\<rparr>],
                        w_events := w_events w @ [Message INFO ''Activation successful.'' []]\<rparr>)) \<and>
            (\<forall>p. [p \<leftarrow> w_pupils w. p_contest_id p = c_id (req_contest request) \<and>
                                    p_user_id p = u_id (req_user request)] = [p] \<longrightarrow>
               activate_pupil_view fw ct_get_or_create contest_id key request w =
                 Inr (redirect ''default_contest_view'' [(''contest_id'', PyStr contest_id)],
                      w\<lparr>w_events := w_events w @ [Message INFO ''Activation successful.'' []]\<rparr>))) \<and>
         (rc_key rc = key \<and> rc_is_active rc \<and>
          has_perm fw (req_user request) ''teachers.teacher'' \<and>
          \<not> REQUEST_contains request ''register_as'' \<longrightarrow>
            activate_pupil_view fw ct_get_or_create contest_id key request w =
              Inr (TemplateResponse ''teachers/activation_type.html'' [(''key'', CStr key)], w))"
  using assms
  by (auto simp: activate_pupil_view_def login_required_def user_passes_test_def
        activate_pupil_view_body_def Pupil_get_or_create_def messages_info_def add_event_def
        Let_def)

theorem activate_pupil_view_spec_witness:
  "is_authenticated (req_user a_request) \<and>
   [rc \<leftarrow> w_registration_configs contest_world. rc_contest_id rc = c_id (req_contest a_request)] =
     [\<lparr>rc_contest_id = ''c1'', rc_is_active = True, rc_key = ''k1''\<rparr>] \<and>
   activate_pupil_view some_framework ContestTeacher_objects_get_or_create ''c1'' ''bad''
     a_request contest_world =
     Inr (TemplateResponse ''teachers/activation_error.html''
            [(''key_ok'', CBool False), (''registration_active'', CBool True)], contest_world) \<and>
   \<not> has_perm some_framework (req_user a_request) ''teachers.teacher'' \<and>
   activate_pupil_view some_framework ContestTeacher_objects_get_or_create ''c1'' ''k1''
     a_request contest_world =
     Inr (redirect ''default_contest_view'' [(''contest_id'', PyStr ''c1'')],
          contest_world\<lparr>w_pupils := [\<lparr>p_contest_id = ''c1'', p_user_id = 1\<rparr>],
                         w_events := [Message INFO ''Activation successful.'' []]\<rparr>) \<and>
   activate_pupil_view some_framework ContestTeacher_objects_get_or_create ''c1'' ''k1''
     a_request
     (contest_world\<lparr>w_pupils := [\<lparr>p_contest_id = ''c1'', p_user_id = 1\<rparr>],
                    w_events := [Message INFO ''Activation successful.'' []]\<rparr>) =
     Inr (redirect ''default_contest_view'' [(''contest_id'', PyStr ''c1'')],
          contest_world\<lparr>w_pupils := [\<lparr>p_contest_id = ''c1'', p_user_id = 1\<rparr>],
                         w_events := [Message INFO ''Activation successful.'' [],
                                      Message INFO ''Activation successful.'' []]\<rparr>) \<and>
   is_authenticated (req_user admin_request) \<and>
   has_perm some_framework (req_user admin_request) ''teachers.teacher'' \<and>
   \<not> REQUEST_contains admin_request ''register_as'' \<and>
   activate_pupil_view some_framework ContestTeacher_objects_get_or_create ''c1'' ''k1''
     admin_request contest_world =
     Inr (TemplateResponse ''teachers/activation_type.html'' [(''key'', CStr ''k1'')], contest_world)"
proof -
  let ?rc = "\<lparr>rc_contest_id = ''c1'', rc_is_active = True, rc_key = ''k1''\<rparr>"
  let ?w1 = "contest_world\<lparr>w_pupils := [\<lparr>p_contest_id = ''c1'', p_user_id = 1\<rparr>],
                          w_events := [Message INFO ''Activation successful.'' []]\<rparr>"
  have au: "is_authenticated (req_user a_request)" "is_authenticated (req_user admin_request)"
    by (simp_all add: concrete_defs)
  have rc: "[rc \<leftarrow> w_registration_configs contest_world. rc_contest_id rc = c_id (req_contest a_request)] = [?rc]"
    "[rc \<leftarrow> w_registration_configs ?w1. rc_contest_id rc = c_id (req_contest a_request)] = [?rc]"
    "[rc \<leftarrow> w_registration_configs contest_world. rc_contest_id rc = c_id (req_contest admin_request)] = [?rc]"
    by (simp_all add: concrete_defs)
  have perm: "\<not> has_perm some_framework (req_user a_request) ''teachers.teacher''"
    "has_perm some_framework (req_user admin_request) ''teachers.teacher''"
    "\<not> REQUEST_contains admin_request ''register_as''"
    by (simp_all add: concrete_defs REQUEST_contains_def qd_contains_def)
  have pup: "[p \<leftarrow> w_pupils contest_world. p_contest_id p = c_id (req_contest a_request) \<and>
                 p_user_id p = u_id (req_user a_request)] = []"
    "[p \<leftarrow> w_pupils ?w1. p_contest_id p = c_id (req_contest a_request) \<and>
                 p_user_id p = u_id (req_user a_request)] = [\<lparr>p_contest_id = ''c1'', p_user_id = 1\<rparr>]"
    by (simp_all add: concrete_defs)
  have fields: "c_id (req_contest a_request) = ''c1''" "u_id (req_user a_request) = 1"
    "w_pupils contest_world = []" "w_events contest_world = []"
    by (simp_all add: concrete_defs)
  note t = activate_pupil_view_spec
             [where fw = some_framework and ct_get_or_create = ContestTeacher_objects_get_or_create
                and contest_id = "''c1''"]
  from t [OF au(1) rc(1), of "''bad''"]
  have r1: "activate_pupil_view some_framework ContestTeacher_objects_get_or_create ''c1'' ''bad''
     a_request contest_world =
     Inr (TemplateResponse ''teachers/activation_error.html''
            [(''key_ok'', CBool False), (''registration_active'', CBool True)], contest_world)"
    by simp
  from t [OF au(1) rc(1), of "''k1''"] perm pup(1)
  have r2: "activate_pupil_view some_framework ContestTeacher_objects_get_or_create ''c1'' ''k1''
     a_request contest_world = Inr (redirect ''default_contest_view'' [(''contest_id'', PyStr ''c1'')], ?w1)"
    by (simp add: fields)
  from t [OF au(1) rc(2), of "''k1''"] perm pup(2)
  have r3: "activate_pupil_view some_framework ContestTeacher_objects_get_or_create ''c1'' ''k1''
     a_request ?w1 =
     Inr (redirect ''default_contest_view'' [(''contest_id'', PyStr ''c1'')],
          contest_world\<lparr>w_pupils := [\<lparr>p_contest_id = ''c1'', p_user_id = 1\<rparr>],
                         w_events := [Message INFO ''Activation successful.'' [],
                                      Message INFO ''Activation successful.'' []]\<rparr>)"
    by simp
  from t [OF au(2) rc(3), of "''k1''"] perm
  have r4: "activate_pupil_view some_framework ContestTeacher_objects_get_or_create ''c1'' ''k1''
     admin_request contest_world =
     Inr (TemplateResponse ''teachers/activation_type.html'' [(''key'', CStr ''k1'')], contest_world)"
    by simp
  from au rc(1) perm r1 r2 r3 r4 show ?thesis by simp
qed

section \<open>Switching registration on and off\<close>

text \<open>
  C7. For a contest admin's request to \<open>set_registration_view\<close> on a contest that has
  its \<open>RegistrationConfig\<close>: afterwards the config of the contest has \<open>is_active\<close> equal
  to the supplied value and every other field as before (the key among them), every
  other config and every other table is unchanged, and the answer is the redirect to the
  pupils page of the contest.
\<close>

theorem set_registration_view_spec:
  assumes "is_contest_admin u request"
      and "[rc \<leftarrow> w_registration_configs w. rc_contest_id rc = c_id (req_contest request)] = [rc0]"
  shows "\<exists>w'. set_registration_view u contest_id val request w =
                 Inr (redirect ''pupils_view'' [(''contest_id'', PyStr (c_id (req_contest request)))], w') \<and>
              w' = w\<lparr>w_registration_configs :=
                      map (\<lambda>r. if rc_contest_id r = c_id (req_contest request)
                                then r\<lparr>rc_is_active := val\<rparr> else r)
                        (w_registration_configs w)\<rparr> \<and>
              [rc \<leftarrow> w_registration_configs w'. rc_contest_id rc = c_id (req_contest request)] =
                [rc0\<lparr>rc_is_active := val\<rparr>]"
proof -
  let ?cid = "c_id (req_contest request)"
  let ?upd = "\<lambda>r. if rc_contest_id r = ?cid then r\<lparr>rc_is_active := val\<rparr> else r"
  have rc0: "rc_contest_id rc0 = ?cid"
  proof -
    have "rc0 \<in> set [rc \<leftarrow> w_registration_configs w. rc_contest_id rc = ?cid]"
      unfolding assms(2) by simp
    then show ?thesis by simp
  qed
  have "map (\<lambda>r. if rc_contest_id r = rc_contest_id (rc0\<lparr>rc_is_active := val\<rparr>)
                  then rc0\<lparr>rc_is_active := val\<rparr> else r) (w_registration_configs w) =
        map (\<lambda>r. if rc_contest_id r = ?cid then r\<lparr>rc_is_active := val\<rparr> else r)
          (w_registration_configs w)"
    by (rule map_save_unique [OF assms(2)]) (simp_all add: rc0)
  then have run: "set_registration_view u contest_id val request w =
      Inr (redirect ''pupils_view'' [(''contest_id'', PyStr ?cid)],
           w\<lparr>w_registration_configs := map ?upd (w_registration_configs w)\<rparr>)"
    using assms
    by (simp add: set_registration_view_def enforce_condition_pass set_registration_view_body_def
          redirect_to_pupils_def RegistrationConfig_save_def)
  have "[rc \<leftarrow> map ?upd (w_registration_configs w). rc_contest_id rc = ?cid] =
          map ?upd [rc \<leftarrow> w_registration_configs w. rc_contest_id rc = ?cid]"
    by (rule filter_map_keep) simp
  also have "\<dots> = [rc0\<lparr>rc_is_active := val\<rparr>]"
    unfolding assms(2) by (simp add: rc0)
  finally show ?thesis using run by simp
qed

theorem set_registration_view_spec_witness:
  "is_contest_admin some_utils admin_request \<and>
   [rc \<leftarrow> w_registration_configs contest_world. rc_contest_id rc = c_id (req_contest admin_request)] =
     [\<lparr>rc_contest_id = ''c1'', rc_is_active = True, rc_key = ''k1''\<rparr>] \<and>
   set_registration_view some_utils ''c1'' False admin_request contest_world =
     Inr (redirect ''pupils_view'' [(''contest_id'', PyStr ''c1'')],
          contest_world\<lparr>w_registration_configs :=
            [\<lparr>rc_contest_id = ''c0'', rc_is_active = True, rc_key = ''k0''\<rparr>,
             \<lparr>rc_contest_id = ''c1'', rc_is_active = False, rc_key = ''k1''\<rparr>]\<rparr>)"
proof -
  have c: "is_contest_admin some_utils admin_request"
    by (simp add: some_utils_def admin_request_def an_admin_def)
  have f: "[rc \<leftarrow> w_registration_configs contest_world. rc_contest_id rc = c_id (req_contest admin_request)] =
     [\<lparr>rc_contest_id = ''c1'', rc_is_active = True, rc_key = ''k1''\<rparr>]"
    by (simp add: contest_world_def empty_world_def admin_request_def a_request_def)
  have fields: "c_id (req_contest admin_request) = ''c1''"
    "w_registration_configs contest_world =
       [\<lparr>rc_contest_id = ''c0'', rc_is_active = True, rc_key = ''k0''\<rparr>,
        \<lparr>rc_contest_id = ''c1'', rc_is_active = True, rc_key = ''k1''\<rparr>]"
    by (simp_all add: contest_world_def empty_world_def admin_request_def a_request_def)
  from set_registration_view_spec [OF c f, of "''c1''" False] c f show ?thesis
    by (auto simp: fields)
qed

section \<open>The admin action that compares two submissions\<close>

lemma two_sorted_perm:
  assumes "mset ys = mset [a, b]" and "sorted (map f ys)"
  shows "\<exists>x y. ys = [x, y] \<and> mset [x, y] = mset [a, b] \<and> f x \<le> (f y :: 'k :: linorder)"
proof -
  from assms(1) have "length ys = 2"
    by (metis length_Cons list.size(3) mset_eq_length numeral_2_eq_2)
  then obtain x y where ys: "ys = [x, y]"
    by (metis (no_types, opaque_lifting) Suc_length_conv length_0_conv numeral_2_eq_2)
  with assms show ?thesis by simp
qed

text \<open>
  C10. Whatever order the database gives to rows of equal date, as long as
  \<open>order_by('date')\<close> returns the selected rows sorted by date: when the selection does
  not hold exactly two submissions the action records the error message and returns
  \<open>None\<close>, with no redirect; when it holds exactly two, the action redirects to
  \<open>source_diff\<close> with the two selected submissions, the one of the earlier date as
  \<open>submission1_id\<close> and the other as \<open>submission2_id\<close>, and records nothing.
\<close>

theorem submission_diff_action_spec:
  assumes perm: "mset (order_by_date queryset) = mset queryset"
      and srt: "sorted (map sub_date (order_by_date queryset))"
  shows "(length queryset \<noteq> 2 \<longrightarrow>
            submission_diff_action order_by_date request queryset w =
              Inr (None, messages_error ''You shall select exactly two submissions to diff'' [] w)) \<and>
         (length queryset = 2 \<longrightarrow>
            (\<exists>older newer.
               mset [older, newer] = mset queryset \<and> sub_date older \<le> sub_date newer \<and>
               submission_diff_action order_by_date request queryset w =
                 Inr (Some (redirect ''source_diff''
                              [(''contest_id'', PyStr (c_id (req_contest request))),
                               (''submission1_id'', PyInt (sub_id older)),
                               (''submission2_id'', PyInt (sub_id newer))]), w)))"
proof (intro conjI impI)
  assume "length queryset \<noteq> 2"
  then show "submission_diff_action order_by_date request queryset w =
              Inr (None, messages_error ''You shall select exactly two submissions to diff'' [] w)"
    by (simp add: submission_diff_action_def)
next
  assume len: "length queryset = 2"
  then obtain a b where q: "queryset = [a, b]"
    by (metis (no_types, opaque_lifting) Suc_length_conv length_0_conv numeral_2_eq_2)
  from perm q have "mset (order_by_date queryset) = mset [a, b]" by simp
  from two_sorted_perm [OF this srt] obtain x y where
    xy: "order_by_date queryset = [x, y]" "mset [x, y] = mset [a, b]" "sub_date x \<le> sub_date y"
    by blast
  have "submission_diff_action order_by_date request queryset w =
          Inr (Some (redirect ''source_diff''
                       [(''contest_id'', PyStr (c_id (req_contest request))),
                        (''submission1_id'', PyInt (sub_id x)),
                        (''submission2_id'', PyInt (sub_id y))]), w)"
    using len xy(1) by (simp add: submission_diff_action_def)
  with xy q show "\<exists>older newer.
               mset [older, newer] = mset queryset \<and> sub_date older \<le> sub_date newer \<and>
               submission_diff_action order_by_date request queryset w =
                 Inr (Some (redirect ''source_diff''
                              [(''contest_id'', PyStr (c_id (req_contest request))),
                               (''submission1_id'', PyInt (sub_id older)),
                               (''submission2_id'', PyInt (sub_id newer))]), w)"
    by blast
qed

theorem submission_diff_action_spec_witness:
  "mset (sort_key sub_date [sub_a, sub_b]) = mset [sub_a, sub_b] \<and>
   sorted (map sub_date (sort_key sub_date [sub_a, sub_b])) \<and>
   submission_diff_action (sort_key sub_date) a_request [sub_a, sub_b] empty_world =
     Inr (Some (redirect ''source_diff''
                  [(''contest_id'', PyStr ''c1''), (''submission1_id'', PyInt 9),
                   (''submission2_id'', PyInt 7)]), empty_world) \<and>
   mset (sort_key sub_date [sub_a]) = mset [sub_a] \<and>
   sorted (map sub_date (sort_key sub_date [sub_a])) \<and>
   submission_diff_action (sort_key sub_date) a_request [sub_a] empty_world =
     Inr (None, messages_error ''You shall select exactly two submissions to diff'' [] empty_world)"
proof -
  have p2: "mset (sort_key sub_date [sub_a, sub_b]) = mset [sub_a, sub_b]" by simp
  have s2: "sorted (map sub_date (sort_key sub_date [sub_a, sub_b]))" by simp
  have p1: "mset (sort_key sub_date [sub_a]) = mset [sub_a]" by simp
  have s1: "sorted (map sub_date (sort_key sub_date [sub_a]))" by simp
  have ab: "sub_date sub_b < sub_date sub_a" "sub_id sub_a = 7" "sub_id sub_b = 9"
    by (simp_all add: sub_a_def sub_b_def)
  have pair: "older = sub_b \<and> newer = sub_a"
    if "mset [older, newer] = mset [sub_a, sub_b]" "sub_date older \<le> sub_date newer"
    for older newer
    using that ab by (auto simp: add_eq_conv_diff)
  have t2: "submission_diff_action (sort_key sub_date) a_request [sub_a, sub_b] empty_world =
         Inr (Some (redirect ''source_diff''
                      [(''contest_id'', PyStr ''c1''), (''submission1_id'', PyInt 9),
                       (''submission2_id'', PyInt 7)]), empty_world)"
  proof -
    from submission_diff_action_spec
           [of "sort_key sub_date" "[sub_a, sub_b]" a_request empty_world, OF p2 s2]
    obtain older newer where
      h: "mset [older, newer] = mset [sub_a, sub_b]" "sub_date older \<le> sub_date newer"
         "submission_diff_action (sort_key sub_date) a_request [sub_a, sub_b] empty_world =
            Inr (Some (redirect ''source_diff''
                         [(''contest_id'', PyStr (c_id (req_contest a_request))),
                          (''submission1_id'', PyInt (sub_id older)),
                          (''submission2_id'', PyInt (sub_id newer))]), empty_world)"
      by auto
    from pair [OF h(1) h(2)] h(3) ab show ?thesis by (simp add: a_request_def)
  qed
  have t1: "submission_diff_action (sort_key sub_date) a_request [sub_a] empty_world =
         Inr (None, messages_error ''You shall select exactly two submissions to diff'' [] empty_world)"
    using submission_diff_action_spec
            [of "sort_key sub_date" "[sub_a]" a_request empty_world, OF p1 s1] by simp
  show ?thesis using t1 t2 p1 p2 s1 s2 by simp
qed

end
